theory Spec2Isabelle
  imports Complex_Main "HOL-Library.Sublist"
begin

section \<open>Strings\<close>

text \<open>
  Python strings are modelled as \<^typ>\<open>string\<close>. One \<^typ>\<open>char\<close> stands for one code point
  below 256 (the Latin-1 range, which holds every character of the Spanish templates), so
  that \<^const>\<open>length\<close> is Python's \<open>len\<close>. Text with code points from 256 on is outside
  the model.
\<close>

text \<open>\<open>sub in s\<close>: \<open>sub\<close> occurs in \<open>s\<close> as a contiguous run.\<close>

fun str_contains :: "string \<Rightarrow> string \<Rightarrow> bool" where
  "str_contains sub [] = (sub = [])"
| "str_contains sub (c # cs) = (prefix sub (c # cs) \<or> str_contains sub cs)"

text \<open>
  \<open>str.isspace\<close> on one character. Below 256 Python's whitespace is \<open>\t \n \v \f \r\<close>,
  the separators \<open>0x1c\<close> to \<open>0x1f\<close>, the blank, \<open>0x85\<close> and \<open>0xa0\<close>.
\<close>

definition isspace :: "char \<Rightarrow> bool" where
  "isspace c = (let n = (of_char c :: nat) in
     (9 \<le> n \<and> n \<le> 13) \<or> (28 \<le> n \<and> n \<le> 32) \<or> n = 133 \<or> n = 160)"

text \<open>\<open>s.strip()\<close>: drop the whitespace at both ends.\<close>

definition strip :: "string \<Rightarrow> string" where
  "strip s = rev (dropWhile isspace (rev (dropWhile isspace s)))"

text \<open>
  \<open>str.lower\<close>. Below 256 the upper-case letters are \<open>A\<close> to \<open>Z\<close> and \<open>0xc0\<close> to
  \<open>0xde\<close> without the multiplication sign \<open>0xd7\<close>; each is 32 below its lower-case form.
\<close>

definition lower_char :: "char \<Rightarrow> char" where
  "lower_char c = (let n = (of_char c :: nat) in
     if (65 \<le> n \<and> n \<le> 90) \<or> (192 \<le> n \<and> n \<le> 222 \<and> n \<noteq> 215)
     then char_of (n + 32) else c)"

definition lower :: "string \<Rightarrow> string" where
  "lower s = map lower_char s"

section \<open>Agent type detection\<close>

text \<open>\<open>SeleniumAgentService._detect_agent_type\<close>.\<close>

definition selenium_detect_agent_type :: "string \<Rightarrow> string" where
  "selenium_detect_agent_type agent_url =
     (if str_contains ''chatgpt.com'' agent_url \<or> str_contains ''openai.com'' agent_url
      then ''chatgpt''
      else if str_contains ''claude.ai'' agent_url
      then ''claude''
      else if str_contains ''bard.google.com'' agent_url
            \<or> str_contains ''gemini.google.com'' agent_url
      then ''gemini''
      else ''unknown'')"

text \<open>\<open>SimpleWebScrapingService._detect_agent_type\<close>, the same text in the second service.\<close>

definition simple_detect_agent_type :: "string \<Rightarrow> string" where
  "simple_detect_agent_type agent_url =
     (if str_contains ''chatgpt.com'' agent_url \<or> str_contains ''openai.com'' agent_url
      then ''chatgpt''
      else if str_contains ''claude.ai'' agent_url
      then ''claude''
      else if str_contains ''bard.google.com'' agent_url
            \<or> str_contains ''gemini.google.com'' agent_url
      then ''gemini''
      else ''unknown'')"

section \<open>The browser as an environment\<close>

text \<open>
  The exceptions of class \<open>Exception\<close> that the code distinguishes, each with the text
  \<open>str(e)\<close> gives. \<open>KeyboardInterrupt\<close> and the like, which no \<open>except Exception\<close> catches,
  are outside the model.
\<close>

datatype exn =
    TimeoutException string
  | NoSuchElementException string
  | OtherException string

fun exn_str :: "exn \<Rightarrow> string" where
  "exn_str (TimeoutException m) = m"
| "exn_str (NoSuchElementException m) = m"
| "exn_str (OtherException m) = m"

fun is_Exception :: "exn \<Rightarrow> bool" where
  "is_Exception e = True"

fun is_TimeoutException :: "exn \<Rightarrow> bool" where
  "is_TimeoutException (TimeoutException m) = True"
| "is_TimeoutException e = False"

fun is_NoSuchElementException :: "exn \<Rightarrow> bool" where
  "is_NoSuchElementException (NoSuchElementException m) = True"
| "is_NoSuchElementException e = False"

text \<open>A \<open>WebElement\<close> is a handle; \<open>By\<close> is the kind of a locator.\<close>

type_synonym elem = nat

datatype by_kind = CSS_SELECTOR | XPATH | TAG_NAME

datatype chrome_source = SystemDriver | ManagedDriver | DefaultDriver

text \<open>
  Everything Selenium, the clock and the browser answer. The world \<open>'w\<close> is whatever
  state lies behind the driver (the page, the network, the time); each call returns its
  answer or the exception it raises, and the world after the call.
  \<^item> \<open>new_chrome\<close>: \<open>webdriver.Chrome(...)\<close> with the system chromedriver, with the one
    \<open>ChromeDriverManager().install()\<close> fetches, or with no service; the flag is \<open>headless\<close>.
  \<^item> \<open>wait_presence\<close>: \<open>WebDriverWait(driver, 30).until\<close> of
    \<open>EC.presence_of_element_located\<close> for a CSS selector.
  \<^item> \<open>find_element\<close> and \<open>find_elements\<close>: the lookups of the driver; the other \<open>el_\<close>
    fields are the methods and the \<open>text\<close> property of an element.
  \<^item> \<open>elapse\<close>: \<open>time.sleep\<close>, which lets the world move on and raises nothing.
  \<^item> \<open>time_time\<close>: \<open>time.time()\<close>, the float read as the real number it denotes.
\<close>

record 'w browser =
  new_chrome :: "bool \<Rightarrow> chrome_source \<Rightarrow> 'w \<Rightarrow> (exn + unit) \<times> 'w"
  set_window_size :: "nat \<Rightarrow> nat \<Rightarrow> 'w \<Rightarrow> (exn + unit) \<times> 'w"
  implicitly_wait :: "nat \<Rightarrow> 'w \<Rightarrow> (exn + unit) \<times> 'w"
  driver_get :: "string \<Rightarrow> 'w \<Rightarrow> (exn + unit) \<times> 'w"
  wait_presence :: "string \<Rightarrow> 'w \<Rightarrow> (exn + elem) \<times> 'w"
  find_element :: "by_kind \<times> string \<Rightarrow> 'w \<Rightarrow> (exn + elem) \<times> 'w"
  find_elements :: "by_kind \<times> string \<Rightarrow> 'w \<Rightarrow> (exn + elem list) \<times> 'w"
  el_clear :: "elem \<Rightarrow> 'w \<Rightarrow> (exn + unit) \<times> 'w"
  el_send_keys :: "elem \<Rightarrow> string \<Rightarrow> 'w \<Rightarrow> (exn + unit) \<times> 'w"
  el_click :: "elem \<Rightarrow> 'w \<Rightarrow> (exn + unit) \<times> 'w"
  el_is_enabled :: "elem \<Rightarrow> 'w \<Rightarrow> (exn + bool) \<times> 'w"
  el_is_displayed :: "elem \<Rightarrow> 'w \<Rightarrow> (exn + bool) \<times> 'w"
  el_text :: "elem \<Rightarrow> 'w \<Rightarrow> (exn + string) \<times> 'w"
  elapse :: "nat \<Rightarrow> 'w \<Rightarrow> 'w"
  time_time :: "'w \<Rightarrow> real"

text \<open>
  The service object and the world it runs in: \<open>self.headless\<close>, whether \<open>self.driver\<close>
  is set, and the world. Logging is left out: it returns nothing the code reads.
\<close>

record 'w session =
  headless :: bool
  driver :: bool
  world :: 'w

type_synonym ('a, 'w) action = "'w session \<Rightarrow> (exn + 'a) \<times> 'w session"

definition xreturn :: "'a \<Rightarrow> ('a, 'w) action" where
  "xreturn x s = (Inr x, s)"

definition xbind :: "('a, 'w) action \<Rightarrow> ('a \<Rightarrow> ('b, 'w) action) \<Rightarrow> ('b, 'w) action" where
  "xbind m f s = (case m s of (Inl e, s') \<Rightarrow> (Inl e, s') | (Inr x, s') \<Rightarrow> f x s')"

text \<open>
  \<open>try: m except C as e: h\<close>. The handler starts in the world the failed call left.
\<close>

definition try_except ::
  "('a, 'w) action \<Rightarrow> (exn \<Rightarrow> bool) \<Rightarrow> (exn \<Rightarrow> ('a, 'w) action) \<Rightarrow> ('a, 'w) action" where
  "try_except m caught h s =
     (case m s of
        (Inl e, s') \<Rightarrow> if caught e then h e s' else (Inl e, s')
      | (Inr x, s') \<Rightarrow> (Inr x, s'))"

text \<open>A method of an element, or a call that needs no driver.\<close>

definition io :: "('w \<Rightarrow> (exn + 'a) \<times> 'w) \<Rightarrow> ('a, 'w) action" where
  "io f s = (case f (world s) of (r, w') \<Rightarrow> (r, s\<lparr>world := w'\<rparr>))"

text \<open>
  A method of \<open>self.driver\<close>: on \<open>None\<close> the attribute lookup raises \<open>AttributeError\<close>.
\<close>

definition drv :: "('w \<Rightarrow> (exn + 'a) \<times> 'w) \<Rightarrow> ('a, 'w) action" where
  "drv f s =
     (if driver s then io f s
      else (Inl (OtherException ''AttributeError''), s))"

definition sleep :: "'w browser \<Rightarrow> nat \<Rightarrow> (unit, 'w) action" where
  "sleep b n s = (Inr (), s\<lparr>world := elapse b n (world s)\<rparr>)"

definition assign_driver :: "(unit, 'w) action" where
  "assign_driver s = (Inr (), s\<lparr>driver := True\<rparr>)"

section \<open>SeleniumAgentService\<close>

text \<open>
  \<open>_setup_driver\<close>. The three ways to start Chrome are tried in turn, each a bare
  \<open>except:\<close> around the one before; \<open>self.driver\<close> is assigned by the one that works.
\<close>

definition start_chrome :: "'w browser \<Rightarrow> chrome_source \<Rightarrow> (unit, 'w) action" where
  "start_chrome b src =
     (\<lambda>s. xbind (io (new_chrome b (headless s) src)) (\<lambda>_. assign_driver) s)"

definition setup_driver :: "'w browser \<Rightarrow> (bool, 'w) action" where
  "setup_driver b =
     try_except
       (xbind
          (try_except (start_chrome b SystemDriver) is_Exception (\<lambda>_.
             try_except (start_chrome b ManagedDriver) is_Exception (\<lambda>_.
               start_chrome b DefaultDriver)))
          (\<lambda>_. xbind (drv (set_window_size b 1920 1080))
          (\<lambda>_. xbind (drv (implicitly_wait b 10))
          (\<lambda>_. xreturn True))))
       is_Exception (\<lambda>e. xreturn False)"

definition chatgpt_text_selectors :: "string list" where
  "chatgpt_text_selectors =
     [''textarea[placeholder*='Message']'',
      ''textarea[data-id='root']'',
      ''#prompt-textarea'',
      ''textarea[placeholder*='Send a message']'',
      ''.prose textarea'',
      ''div[contenteditable='true']'']"

definition chatgpt_send_selectors :: "string list" where
  "chatgpt_send_selectors =
     [''button[data-testid='send-button']'',
      ''button[aria-label='Send message']'',
      ''button:has-text('Send')'',
      ''.absolute.right-2 button'',
      ''button[type='submit']'']"

definition chatgpt_response_selectors :: "string list" where
  "chatgpt_response_selectors =
     [''.markdown.prose'',
      ''.message-content'',
      ''[data-message-author-role='assistant'] .markdown'',
      ''.conversation-turn .markdown'']"

text \<open>
  The loop over \<open>text_selectors\<close>: the first selector whose wait returns an element ends
  it; a \<open>TimeoutException\<close> moves on to the next; any other exception leaves the loop.
\<close>

fun find_text_area :: "'w browser \<Rightarrow> string list \<Rightarrow> (elem option, 'w) action" where
  "find_text_area b [] = xreturn None"
| "find_text_area b (selector # rest) =
     try_except
       (xbind (drv (wait_presence b selector)) (\<lambda>text_area. xreturn (Some text_area)))
       is_TimeoutException (\<lambda>_. find_text_area b rest)"

text \<open>
  The loop over \<open>send_selectors\<close>. \<open>send_button\<close> keeps the last element found, also
  a disabled one; \<open>break\<close> on an enabled one; \<open>NoSuchElementException\<close>, from the lookup or
  from \<open>is_enabled\<close>, moves on.
\<close>

fun find_send_button ::
  "'w browser \<Rightarrow> elem option \<Rightarrow> string list \<Rightarrow> (elem option, 'w) action" where
  "find_send_button b send_button [] = xreturn send_button"
| "find_send_button b send_button (selector # rest) = (\<lambda>s.
     case drv (find_element b (CSS_SELECTOR, selector)) s of
       (Inl e, s1) \<Rightarrow>
         if is_NoSuchElementException e then find_send_button b send_button rest s1
         else (Inl e, s1)
     | (Inr found, s1) \<Rightarrow>
         (case io (el_is_enabled b found) s1 of
            (Inl e, s2) \<Rightarrow>
              if is_NoSuchElementException e then find_send_button b (Some found) rest s2
              else (Inl e, s2)
          | (Inr enabled, s2) \<Rightarrow>
              if enabled then (Inr (Some found), s2)
              else find_send_button b (Some found) rest s2))"

text \<open>
  One round of the loop over \<open>response_selectors\<close>: the text of the last element found,
  stripped, when it is longer than 10; \<open>None\<close> stands for going on to the next selector,
  which is also what any exception leads to.
\<close>

definition response_of :: "'w browser \<Rightarrow> string \<Rightarrow> (string option, 'w) action" where
  "response_of b selector =
     try_except
       (xbind (drv (find_elements b (CSS_SELECTOR, selector))) (\<lambda>response_elements.
          if response_elements \<noteq> [] then
            xbind (io (el_text b (last response_elements))) (\<lambda>raw.
              let response_text = strip raw in
              if response_text \<noteq> [] \<and> length response_text > 10
              then xreturn (Some response_text) else xreturn None)
          else xreturn None))
       is_Exception (\<lambda>e. xreturn None)"

fun find_response :: "'w browser \<Rightarrow> string list \<Rightarrow> (string option, 'w) action" where
  "find_response b [] = xreturn None"
| "find_response b (selector # rest) =
     xbind (response_of b selector) (\<lambda>r.
       case r of Some response_text \<Rightarrow> xreturn (Some response_text)
       | None \<Rightarrow> find_response b rest)"

text \<open>\<open>_handle_chatgpt_interaction\<close>.\<close>

definition handle_chatgpt_interaction ::
  "'w browser \<Rightarrow> string \<Rightarrow> string \<Rightarrow> (string option, 'w) action" where
  "handle_chatgpt_interaction b agent_url message =
     try_except
       (xbind (drv (driver_get b agent_url)) (\<lambda>_.
        xbind (find_text_area b chatgpt_text_selectors) (\<lambda>found.
        case found of None \<Rightarrow> xreturn None
        | Some text_area \<Rightarrow>
        xbind (io (el_clear b text_area)) (\<lambda>_.
        xbind (io (el_send_keys b text_area message)) (\<lambda>_.
        xbind (find_send_button b None chatgpt_send_selectors) (\<lambda>button.
        case button of None \<Rightarrow> xreturn None
        | Some send_button \<Rightarrow>
        xbind (io (el_is_enabled b send_button)) (\<lambda>enabled.
        if \<not> enabled then xreturn None
        else
        xbind (io (el_click b send_button)) (\<lambda>_.
        xbind (sleep b 3) (\<lambda>_.
        find_response b chatgpt_response_selectors)))))))))
       is_Exception (\<lambda>e. xreturn None)"

definition generic_text_selectors :: "string list" where
  "generic_text_selectors =
     [''textarea'',
      ''input[type='text']'',
      ''div[contenteditable='true']'',
      ''[role='textbox']'']"

definition generic_send_xpath :: string where
  "generic_send_xpath =
     ''//button[contains(text(), 'Send') or contains(text(), 'Submit') or contains(text(), 'Enviar')]''"

text \<open>\<open>page_text[-500:] if len(page_text) > 500 else page_text\<close>.\<close>

definition trailing_slice :: "string \<Rightarrow> string" where
  "trailing_slice page_text =
     (if length page_text > 500 then drop (length page_text - 500) page_text
      else page_text)"

definition read_body :: "'w browser \<Rightarrow> (string option, 'w) action" where
  "read_body b =
     xbind (drv (find_element b (TAG_NAME, ''body''))) (\<lambda>body.
     xbind (io (el_text b body)) (\<lambda>page_text.
     xreturn (Some (trailing_slice page_text))))"

text \<open>
  One round of the generic loop. \<open>Some r\<close> is \<open>return r\<close>; \<open>None\<close> is falling through
  to the next selector. The inner \<open>try\<close> lies inside the outer one, so a
  \<open>NoSuchElementException\<close> raised in the inner handler is caught by the outer.
\<close>

definition generic_attempt ::
  "'w browser \<Rightarrow> string \<Rightarrow> string \<Rightarrow> (string option, 'w) action" where
  "generic_attempt b message selector =
     try_except
       (xbind (drv (find_element b (CSS_SELECTOR, selector))) (\<lambda>text_area.
        xbind (io (el_is_displayed b text_area)) (\<lambda>displayed.
        if \<not> displayed then xreturn None
        else
        xbind (io (el_is_enabled b text_area)) (\<lambda>enabled.
        if \<not> enabled then xreturn None
        else
        xbind (io (el_clear b text_area)) (\<lambda>_.
        xbind (io (el_send_keys b text_area message)) (\<lambda>_.
        try_except
          (xbind (drv (find_element b (XPATH, generic_send_xpath))) (\<lambda>send_button.
           xbind (io (el_click b send_button)) (\<lambda>_.
           xbind (sleep b 3) (\<lambda>_.
           read_body b))))
          is_NoSuchElementException (\<lambda>e.
           xbind (io (el_send_keys b text_area [CHR 0x0A])) (\<lambda>_.
           xbind (sleep b 3) (\<lambda>_.
           read_body b)))))))))
       is_NoSuchElementException (\<lambda>e. xreturn None)"

fun generic_loop ::
  "'w browser \<Rightarrow> string \<Rightarrow> string list \<Rightarrow> (string option, 'w) action" where
  "generic_loop b message [] = xreturn None"
| "generic_loop b message (selector # rest) =
     xbind (generic_attempt b message selector) (\<lambda>r.
       case r of Some page_text \<Rightarrow> xreturn (Some page_text)
       | None \<Rightarrow> generic_loop b message rest)"

text \<open>\<open>_handle_generic_interaction\<close>.\<close>

definition handle_generic_interaction ::
  "'w browser \<Rightarrow> string \<Rightarrow> string \<Rightarrow> (string option, 'w) action" where
  "handle_generic_interaction b agent_url message =
     try_except
       (xbind (drv (driver_get b agent_url)) (\<lambda>_.
        xbind (sleep b 5) (\<lambda>_.
        generic_loop b message generic_text_selectors)))
       is_Exception (\<lambda>e. xreturn None)"

text \<open>
  The result dictionaries: keys in the order the literal lists them, values as JSON.
\<close>

datatype json = JNull | JBool bool | JStr string | JNum real

type_synonym result = "(string \<times> json) list"

fun json_opt :: "string option \<Rightarrow> json" where
  "json_opt None = JNull"
| "json_opt (Some x) = JStr x"

text \<open>\<open>if response:\<close> on an optional string: neither \<open>None\<close> nor empty.\<close>

fun truthy :: "string option \<Rightarrow> bool" where
  "truthy None = False"
| "truthy (Some x) = (x \<noteq> [])"

text \<open>\<open>SeleniumAgentService.get_agent_response\<close>.\<close>

definition selenium_get_agent_response ::
  "'w browser \<Rightarrow> string \<Rightarrow> string \<Rightarrow> string option \<Rightarrow> (result, 'w) action" where
  "selenium_get_agent_response b agent_url message agent_id =
     try_except
       (xbind (\<lambda>s. if \<not> driver s then setup_driver b s else xreturn True s) (\<lambda>ready.
        if \<not> ready then
          xreturn
            [(''success'', JBool False),
             (''error'', JStr ''No se pudo configurar el driver de navegador''),
             (''response'', JNull)]
        else
        let agent_type = selenium_detect_agent_type agent_url in
        xbind (if agent_type = ''chatgpt''
               then handle_chatgpt_interaction b agent_url message
               else handle_generic_interaction b agent_url message) (\<lambda>response.
        if truthy response then
          (\<lambda>s. xreturn
            [(''success'', JBool True),
             (''response'', json_opt response),
             (''agent_type'', JStr agent_type),
             (''agent_id'', json_opt agent_id),
             (''timestamp'', JNum (time_time b (world s)))] s)
        else
          xreturn
            [(''success'', JBool False),
             (''error'', JStr ''No se pudo obtener respuesta del agente''),
             (''response'', JNull)])))
       is_Exception (\<lambda>e. xreturn
            [(''success'', JBool False),
             (''error'', JStr (exn_str e)),
             (''response'', JNull)])"

section \<open>SimpleWebScrapingService\<close>

text \<open>
  What the second service takes from outside: \<open>urlparse(url).netloc\<close> (or the
  \<open>ValueError\<close> that \<open>urlparse\<close> raises), \<open>str.capitalize\<close> (whose result can leave
  the range of code points below 256), the readings of \<open>time.time()\<close> in the order they
  are taken, and the number the shared generator of module \<open>random\<close> yields next.
\<close>

record simple_env =
  urlparse_netloc :: "string \<Rightarrow> exn + string"
  capitalize :: "string \<Rightarrow> string"
  clock :: "nat \<Rightarrow> real"
  draw :: nat

text \<open>
  \<open>s.split(sep)\<close> for a separator that is not empty: cut at each occurrence, from the
  left, occurrences not overlapping.
\<close>

function split_acc :: "string \<Rightarrow> string \<Rightarrow> string \<Rightarrow> string list" where
  "split_acc sep piece [] = [rev piece]"
| "split_acc sep piece (c # cs) =
     (if sep \<noteq> [] \<and> prefix sep (c # cs)
      then rev piece # split_acc sep [] (drop (length sep) (c # cs))
      else split_acc sep (c # piece) cs)"
  by pat_completeness auto
termination
  by (relation "measure (\<lambda>(sep, piece, s). length s)") auto

definition split :: "string \<Rightarrow> string \<Rightarrow> string list" where
  "split sep s = split_acc sep [] s"

text \<open>\<open>sep.join(parts)\<close>.\<close>

fun join :: "string \<Rightarrow> string list \<Rightarrow> string" where
  "join sep [] = []"
| "join sep [p] = p"
| "join sep (p # q # ps) = p @ sep @ join sep (q # ps)"

text \<open>\<open>s.replace(old, new)\<close> for \<open>old\<close> not empty.\<close>

definition replace :: "string \<Rightarrow> string \<Rightarrow> string \<Rightarrow> string" where
  "replace old new s = join new (split old s)"

text \<open>
  \<open>str.isdigit\<close>: not empty and digits only. Below 256 the digits are \<open>0\<close> to \<open>9\<close> and
  the superscripts \<open>0xb2\<close>, \<open>0xb3\<close>, \<open>0xb9\<close>.
\<close>

definition isdigit_char :: "char \<Rightarrow> bool" where
  "isdigit_char c = (let n = (of_char c :: nat) in
     (48 \<le> n \<and> n \<le> 57) \<or> n = 178 \<or> n = 179 \<or> n = 185)"

definition isdigit :: "string \<Rightarrow> bool" where
  "isdigit s = (s \<noteq> [] \<and> list_all isdigit_char s)"

text \<open>\<open>parts[-3:]\<close>.\<close>

definition last3 :: "'a list \<Rightarrow> 'a list" where
  "last3 parts = drop (length parts - 3) parts"

text \<open>
  \<open>_extract_agent_name\<close>. \<open>split(...)[1]\<close> and \<open>split(...)[0]\<close> are read with \<open>!\<close>
  where the list is long enough and raise \<open>IndexError\<close> otherwise; the bare \<open>except:\<close>
  turns every exception into \<open>Agente IA\<close>.
\<close>

definition extract_agent_name_body :: "simple_env \<Rightarrow> string \<Rightarrow> exn + string" where
  "extract_agent_name_body env agent_url =
     (let fallback =
        (case urlparse_netloc env agent_url of
           Inl e \<Rightarrow> Inl e
         | Inr netloc \<Rightarrow>
             (let domain = replace ''www.'' [] netloc in
              case split ''.'' domain of
                [] \<Rightarrow> Inl (OtherException ''IndexError'')
              | first # _ \<Rightarrow> Inr (capitalize env first)))
      in
      if str_contains ''chatgpt.com/g/'' agent_url then
        (let pieces = split ''chatgpt.com/g/'' agent_url in
         if length pieces < 2 then Inl (OtherException ''IndexError'')
         else
           (let parts = split ''-'' (pieces ! 1) in
            if length parts > 1 then
              (let name_parts =
                 map (capitalize env)
                   (filter (\<lambda>part. part \<noteq> [] \<and> \<not> isdigit part \<and> length part > 2)
                      (last3 parts))
               in if name_parts \<noteq> [] then Inr (join '' '' name_parts) else fallback)
            else fallback))
      else fallback)"

definition extract_agent_name :: "simple_env \<Rightarrow> string \<Rightarrow> string" where
  "extract_agent_name env agent_url =
     (case extract_agent_name_body env agent_url of
        Inl e \<Rightarrow> ''Agente IA''
      | Inr name \<Rightarrow> name)"

text \<open>The dictionary \<open>responses\<close>: three templates for each of five categories.\<close>

definition responses :: "string \<Rightarrow> string \<Rightarrow> (string \<times> string list) list" where
  "responses message agent_name =
     [(''chatgpt'',
        [''Hola, soy '' @ agent_name @ ''. He recibido tu consulta: '' @ [CHR 0x27] @ message @
         [CHR 0x27] @ ''. Como asistente de IA, puedo ayudarte con informaci'' @ [CHR 0xF3] @
         ''n, an'' @ [CHR 0xE1] @ ''lisis y recomendaciones. '' @ [CHR 0xBF] @ ''En qu'' @
         [CHR 0xE9] @ '' aspecto espec'' @ [CHR 0xED] @ ''fico te gustar'' @ [CHR 0xED] @
         ''a que me enfoque?'',
         ''Gracias por contactar a '' @ agent_name @ ''. Tu mensaje sobre '' @ [CHR 0x27] @
         message @ [CHR 0x27] @ '' es muy interesante. Bas'' @ [CHR 0xE1] @
         ''ndome en mi conocimiento, puedo sugerirte algunas opciones y enfoques para abordar tu consulta. '' @
         [CHR 0xBF] @ ''Te gustar'' @ [CHR 0xED] @ ''a que profundice en alg'' @ [CHR 0xFA] @
         ''n punto particular?'',
         ''Como '' @ agent_name @ '', entiendo que necesitas ayuda con '' @ [CHR 0x27] @
         message @ [CHR 0x27] @ ''. Puedo proporcionarte informaci'' @ [CHR 0xF3] @
         ''n detallada y recomendaciones personalizadas. '' @ [CHR 0xBF] @ ''Hay alg'' @
         [CHR 0xFA] @ ''n contexto adicional que deber'' @ [CHR 0xED] @
         ''a considerar para darte la mejor respuesta?'']),
      (''smartflyer'',
        [[CHR 0xA1] @ ''Hola! Soy '' @ agent_name @
         '', tu asistente especializado en viajes. He visto tu consulta sobre '' @ [CHR 0x27] @
         message @ [CHR 0x27] @
         ''. Puedo ayudarte con reservas de vuelos, hoteles, itinerarios personalizados y recomendaciones de destinos. '' @
         [CHR 0xBF] @ ''En qu'' @ [CHR 0xE9] @ '' aspecto espec'' @ [CHR 0xED] @
         ''fico de tu viaje puedo asistirte?'',
         ''Bienvenido a '' @ agent_name @ ''. Tu consulta sobre '' @ [CHR 0x27] @ message @
         [CHR 0x27] @
         '' me permite entender tus necesidades de viaje. Como especialista en turismo, puedo ofrecerte las mejores opciones de vuelos, hospedaje y actividades. '' @
         [CHR 0xBF] @ ''Cu'' @ [CHR 0xE1] @ ''les son tus fechas y destino preferido?'',
         ''Como '' @ agent_name @ '', estoy aqu'' @ [CHR 0xED] @
         '' para hacer tu experiencia de viaje excepcional. Sobre tu mensaje '' @ [CHR 0x27] @
         message @ [CHR 0x27] @ '', puedo ayudarte con planificaci'' @ [CHR 0xF3] @
         ''n completa, desde vuelos hasta experiencias locales. '' @ [CHR 0xBF] @ ''Qu'' @
         [CHR 0xE9] @ '' tipo de viaje tienes en mente?'']),
      (''smartplanner'',
        [''Hola, soy '' @ agent_name @ '', tu asistente de planificaci'' @ [CHR 0xF3] @
         ''n inteligente. He analizado tu solicitud sobre '' @ [CHR 0x27] @ message @
         [CHR 0x27] @
         ''. Puedo ayudarte a organizar proyectos, gestionar tiempos, optimizar recursos y crear estrategias efectivas. '' @
         [CHR 0xBF] @ ''Qu'' @ [CHR 0xE9] @ '' aspecto de la planificaci'' @ [CHR 0xF3] @
         ''n necesitas desarrollar?'',
         ''Como '' @ agent_name @ '', entiendo que buscas optimizar '' @ [CHR 0x27] @ message @
         [CHR 0x27] @
         ''. Mi especialidad es crear planes estructurados y eficientes. Puedo ayudarte con cronogramas, asignaci'' @
         [CHR 0xF3] @ ''n de recursos y seguimiento de objetivos. '' @ [CHR 0xBF] @ ''Cu'' @
         [CHR 0xE1] @ ''l es tu meta principal?'',
         ''Bienvenido a '' @ agent_name @ ''. Tu consulta sobre '' @ [CHR 0x27] @ message @
         [CHR 0x27] @ '' requiere un enfoque planificado. Puedo dise'' @ [CHR 0xF1] @
         ''ar estrategias personalizadas, establecer prioridades y crear sistemas de seguimiento. '' @
         [CHR 0xBF] @ ''Qu'' @ [CHR 0xE9] @ '' plazo tienes para este proyecto?'']),
      (''technical'',
        [''Saludos, soy '' @ agent_name @ '', especialista en gesti'' @ [CHR 0xF3] @ ''n t'' @
         [CHR 0xE9] @ ''cnica. He revisado tu consulta sobre '' @ [CHR 0x27] @ message @
         [CHR 0x27] @ ''. Puedo asistirte con an'' @ [CHR 0xE1] @ ''lisis t'' @ [CHR 0xE9] @
         ''cnicos, implementaciones, resoluci'' @ [CHR 0xF3] @
         ''n de problemas y optimizaci'' @ [CHR 0xF3] @ ''n de procesos. '' @ [CHR 0xBF] @
         ''Qu'' @ [CHR 0xE9] @ '' desaf'' @ [CHR 0xED] @ ''o t'' @ [CHR 0xE9] @
         ''cnico espec'' @ [CHR 0xED] @ ''fico enfrentas?'',
         ''Como '' @ agent_name @ '', tu consulta sobre '' @ [CHR 0x27] @ message @
         [CHR 0x27] @ '' requiere experiencia t'' @ [CHR 0xE9] @
         ''cnica especializada. Puedo proporcionarte soluciones detalladas, mejores pr'' @
         [CHR 0xE1] @ ''cticas y recomendaciones de implementaci'' @ [CHR 0xF3] @ ''n. '' @
         [CHR 0xBF] @ ''Cu'' @ [CHR 0xE1] @ ''l es el contexto t'' @ [CHR 0xE9] @
         ''cnico de tu proyecto?'',
         ''Hola, soy '' @ agent_name @ ''. He analizado tu mensaje sobre '' @ [CHR 0x27] @
         message @ [CHR 0x27] @ '' desde una perspectiva t'' @ [CHR 0xE9] @
         ''cnica. Puedo ayudarte con diagn'' @ [CHR 0xF3] @ ''sticos, dise'' @ [CHR 0xF1] @
         ''o de soluciones y gesti'' @ [CHR 0xF3] @ ''n de implementaciones. '' @ [CHR 0xBF] @
         ''Qu'' @ [CHR 0xE9] @ '' recursos t'' @ [CHR 0xE9] @ ''cnicos tienes disponibles?'']),
      (''sales'',
        [[CHR 0xA1] @ ''Hola! Soy '' @ agent_name @
         '', tu especialista en ventas. He recibido tu consulta sobre '' @ [CHR 0x27] @
         message @ [CHR 0x27] @ ''. Puedo ayudarte con estrategias de ventas, an'' @
         [CHR 0xE1] @ ''lisis de mercado, desarrollo de clientes y cierre de negocios. '' @
         [CHR 0xBF] @ ''Qu'' @ [CHR 0xE9] @ '' oportunidad comercial est'' @ [CHR 0xE1] @
         ''s explorando?'',
         ''Como '' @ agent_name @ '', entiendo que '' @ [CHR 0x27] @ message @ [CHR 0x27] @
         '' representa una oportunidad de negocio. Mi experiencia en ventas me permite ofrecerte estrategias efectivas, t'' @
         [CHR 0xE9] @ ''cnicas de persuasi'' @ [CHR 0xF3] @ ''n y enfoques de cierre. '' @
         [CHR 0xBF] @ ''Cu'' @ [CHR 0xE1] @ ''l es tu objetivo de ventas?'',
         ''Bienvenido, soy '' @ agent_name @ ''. Tu mensaje sobre '' @ [CHR 0x27] @ message @
         [CHR 0x27] @
         '' me permite identificar oportunidades comerciales. Puedo desarrollar propuestas personalizadas, estrategias de seguimiento y planes de cierre. '' @
         [CHR 0xBF] @ ''Qu'' @ [CHR 0xE9] @ '' tipo de cliente est'' @ [CHR 0xE1] @
         ''s buscando?''])]"

text \<open>The category the templates are taken from, decided by the agent's name.\<close>

definition response_category :: "string \<Rightarrow> string" where
  "response_category agent_name =
     (if str_contains ''smartflyer'' (lower agent_name) \<or> str_contains ''viaj'' (lower agent_name)
      then ''smartflyer''
      else if str_contains ''smartplanner'' (lower agent_name)
            \<or> str_contains ''plann'' (lower agent_name)
      then ''smartplanner''
      else if str_contains (''t'' @ [CHR 0xE9] @ ''cnico'') (lower agent_name)
            \<or> str_contains ''technical'' (lower agent_name)
      then ''technical''
      else if str_contains ''ventas'' (lower agent_name) \<or> str_contains ''sales'' (lower agent_name)
      then ''sales''
      else ''chatgpt'')"

text \<open>
  \<open>random.choice(seq)\<close>: \<open>IndexError\<close> on an empty sequence, otherwise the element at
  the index the generator draws below \<open>len(seq)\<close>.
\<close>

definition random_choice :: "nat \<Rightarrow> 'a list \<Rightarrow> exn + 'a" where
  "random_choice n seq =
     (if seq = [] then Inl (OtherException ''IndexError'')
      else Inr (seq ! (n mod length seq)))"

text \<open>
  \<open>_generate_simulated_response\<close>, with the generator's draw as its first argument.
  \<open>responses["chatgpt"]\<close>, the default of the lookup, is evaluated first.
\<close>

definition generate_simulated_response ::
  "nat \<Rightarrow> string \<Rightarrow> string \<Rightarrow> string \<Rightarrow> exn + string" where
  "generate_simulated_response n message agent_type agent_name =
     (let category = response_category agent_name in
      case map_of (responses message agent_name) ''chatgpt'' of
        None \<Rightarrow> Inl (OtherException ''KeyError'')
      | Some dflt \<Rightarrow>
          random_choice n
            (case map_of (responses message agent_name) category of
               None \<Rightarrow> dflt
             | Some response_templates \<Rightarrow> response_templates))"

text \<open>\<open>SimpleWebScrapingService.get_agent_response\<close>: the body of the \<open>try\<close>, then the whole.\<close>

definition simple_get_agent_response_body ::
  "simple_env \<Rightarrow> string \<Rightarrow> string \<Rightarrow> string option \<Rightarrow> exn + result" where
  "simple_get_agent_response_body env agent_url message agent_id =
     (let start_time = clock env 0;
          agent_type = simple_detect_agent_type agent_url;
          agent_name = extract_agent_name env agent_url
      in case generate_simulated_response (draw env) message agent_type agent_name of
           Inl e \<Rightarrow> Inl e
         | Inr response \<Rightarrow>
             (let processing_time = clock env 1 - start_time
              in Inr
                [(''success'', JBool True),
                 (''response'', JStr response),
                 (''agent_type'', JStr agent_type),
                 (''agent_id'', json_opt agent_id),
                 (''agent_name'', JStr agent_name),
                 (''timestamp'', JNum (clock env 2)),
                 (''processing_time'', JNum processing_time),
                 (''method'', JStr ''simulated_contextual'')]))"

definition simple_get_agent_response ::
  "simple_env \<Rightarrow> string \<Rightarrow> string \<Rightarrow> string option \<Rightarrow> exn + result" where
  "simple_get_agent_response env agent_url message agent_id =
     (case simple_get_agent_response_body env agent_url message agent_id of
        Inl e \<Rightarrow>
          if is_Exception e then
            Inr [(''success'', JBool False),
                 (''error'', JStr (exn_str e)),
                 (''response'', JNull)]
          else Inl e
      | Inr r \<Rightarrow> Inr r)"

section \<open>Observing the driver, and pages that stand still\<close>

text \<open>
  A record of what the code asks of and does to the elements it holds: each answer of
  \<open>is_enabled()\<close> and each call of \<open>click()\<close>. \<open>logged b\<close> behaves as \<open>b\<close> and keeps
  the record beside the world.
\<close>

datatype event = Asked_enabled elem bool | Clicked elem

fun is_asked :: "event \<Rightarrow> bool" where
  "is_asked (Asked_enabled e v) = True"
| "is_asked (Clicked e) = False"

definition keep :: "('w \<Rightarrow> 'a \<times> 'w) \<Rightarrow> 'w \<times> event list \<Rightarrow> 'a \<times> ('w \<times> event list)" where
  "keep f = (\<lambda>(w, tr). case f w of (r, w') \<Rightarrow> (r, (w', tr)))"

definition logged :: "'w browser \<Rightarrow> ('w \<times> event list) browser" where
  "logged b =
     \<lparr> new_chrome = (\<lambda>h src. keep (new_chrome b h src)),
       set_window_size = (\<lambda>x y. keep (set_window_size b x y)),
       implicitly_wait = (\<lambda>n. keep (implicitly_wait b n)),
       driver_get = (\<lambda>url. keep (driver_get b url)),
       wait_presence = (\<lambda>sel. keep (wait_presence b sel)),
       find_element = (\<lambda>loc. keep (find_element b loc)),
       find_elements = (\<lambda>loc. keep (find_elements b loc)),
       el_clear = (\<lambda>e. keep (el_clear b e)),
       el_send_keys = (\<lambda>e keys. keep (el_send_keys b e keys)),
       el_click = (\<lambda>e (w, tr). case el_click b e w of (r, w') \<Rightarrow> (r, (w', tr @ [Clicked e]))),
       el_is_enabled = (\<lambda>e (w, tr). case el_is_enabled b e w of
           (Inl x, w') \<Rightarrow> (Inl x, (w', tr))
         | (Inr v, w') \<Rightarrow> (Inr v, (w', tr @ [Asked_enabled e v]))),
       el_is_displayed = (\<lambda>e. keep (el_is_displayed b e)),
       el_text = (\<lambda>e. keep (el_text b e)),
       elapse = (\<lambda>n (w, tr). (elapse b n w, tr)),
       time_time = (\<lambda>(w, tr). time_time b w) \<rparr>"

text \<open>
  A synthetic page: the elements each locator matches, in document order, and for each
  element whether it is displayed, whether it is enabled, and its text.
\<close>

record page =
  located :: "by_kind \<times> string \<Rightarrow> elem list"
  shown :: "elem \<Rightarrow> bool"
  enabled_on :: "elem \<Rightarrow> bool"
  text_on :: "elem \<Rightarrow> string"

text \<open>
  The browser showing a page that never changes: Chrome starts, every call succeeds,
  a lookup returns the first match or raises as Selenium does, and the clock stands at 0.
\<close>

definition static_browser :: "page browser" where
  "static_browser =
     \<lparr> new_chrome = (\<lambda>h src p. (Inr (), p)),
       set_window_size = (\<lambda>x y p. (Inr (), p)),
       implicitly_wait = (\<lambda>n p. (Inr (), p)),
       driver_get = (\<lambda>url p. (Inr (), p)),
       wait_presence = (\<lambda>sel p.
         (case located p (CSS_SELECTOR, sel) of
            [] \<Rightarrow> Inl (TimeoutException [])
          | e # _ \<Rightarrow> Inr e, p)),
       find_element = (\<lambda>loc p.
         (case located p loc of
            [] \<Rightarrow> Inl (NoSuchElementException [])
          | e # _ \<Rightarrow> Inr e, p)),
       find_elements = (\<lambda>loc p. (Inr (located p loc), p)),
       el_clear = (\<lambda>e p. (Inr (), p)),
       el_send_keys = (\<lambda>e keys p. (Inr (), p)),
       el_click = (\<lambda>e p. (Inr (), p)),
       el_is_enabled = (\<lambda>e p. (Inr (enabled_on p e), p)),
       el_is_displayed = (\<lambda>e p. (Inr (shown p e), p)),
       el_text = (\<lambda>e p. (Inr (text_on p e), p)),
       elapse = (\<lambda>n p. p),
       time_time = (\<lambda>p. 0) \<rparr>"



text \<open>
  And for the response: the stripped text of the last element of the first selector
  whose last element has a stripped text longer than 10.
\<close>

definition first_answer :: "page \<Rightarrow> string list \<Rightarrow> string option" where
  "first_answer p sels =
     (case find (\<lambda>sel. located p (CSS_SELECTOR, sel) \<noteq> []
                      \<and> 10 < length (strip (text_on p (last (located p (CSS_SELECTOR, sel)))))) sels of
        None \<Rightarrow> None
      | Some sel \<Rightarrow> Some (strip (text_on p (last (located p (CSS_SELECTOR, sel))))))"


text \<open>
  A stand-in for what the second service takes from outside: \<open>urlparse\<close> finds the
  host \<open>example.com\<close>, \<open>capitalize\<close> is the ASCII one, the clock counts its readings,
  and \<open>n\<close> is the generator's draw.
\<close>

definition upper_ascii :: "char \<Rightarrow> char" where
  "upper_ascii c = (let n = (of_char c :: nat) in
     if 97 \<le> n \<and> n \<le> 122 then char_of (n - 32) else c)"

fun capitalize_ascii :: "string \<Rightarrow> string" where
  "capitalize_ascii [] = []"
| "capitalize_ascii (c # cs) = upper_ascii c # lower cs"

definition example_env :: "nat \<Rightarrow> simple_env" where
  "example_env n =
     \<lparr> urlparse_netloc = (\<lambda>url. Inr ''example.com''),
       capitalize = capitalize_ascii,
       clock = (\<lambda>k. real k),
       draw = n \<rparr>"

text \<open>
  A page built from a table of locators, the elements that are disabled, and the texts;
  every element is displayed. Then the pages used as examples below.
\<close>

definition page_of ::
  "((by_kind \<times> string) \<times> elem list) list \<Rightarrow> elem list \<Rightarrow> (elem \<times> string) list \<Rightarrow> page" where
  "page_of places off texts =
     \<lparr> located = (\<lambda>loc. case map_of places loc of None \<Rightarrow> [] | Some es \<Rightarrow> es),
       shown = (\<lambda>e. True),
       enabled_on = (\<lambda>e. e \<notin> set off),
       text_on = (\<lambda>e. case map_of texts e of None \<Rightarrow> [] | Some t \<Rightarrow> t) \<rparr>"

text \<open>A page of an unknown agent: a text area, no button, and a body that reads \<open>ok\<close>.\<close>

definition short_page :: page where
  "short_page =
     page_of [((CSS_SELECTOR, ''textarea''), [1]), ((TAG_NAME, ''body''), [0])] []
       [(0, ''ok'')]"

text \<open>
  A chat page: the prompt area, the send button, two answers under \<open>.markdown.prose\<close>
  and one element under \<open>.message-content\<close>.
\<close>

definition chat_page :: page where
  "chat_page =
     page_of
       [((CSS_SELECTOR, ''#prompt-textarea''), [1]),
        ((CSS_SELECTOR, ''button[data-testid='send-button']''), [2]),
        ((CSS_SELECTOR, ''.markdown.prose''), [3, 4]),
        ((CSS_SELECTOR, ''.message-content''), [5])] []
       [(3, ''An earlier answer of the agent''),
        (4, ''  The latest answer of the agent '' @ [CHR 0x0A]),
        (5, ''Another container with text'')]"

text \<open>
  The same page when the latest element under \<open>.markdown.prose\<close> holds only \<open>Hello!\<close>
  and no other response selector matches.
\<close>

definition hello_page :: page where
  "hello_page =
     page_of
       [((CSS_SELECTOR, ''#prompt-textarea''), [1]),
        ((CSS_SELECTOR, ''button[data-testid='send-button']''), [2]),
        ((CSS_SELECTOR, ''.markdown.prose''), [3, 4])] []
       [(3, ''An earlier answer of the agent''),
        (4, ''Hello!'')]"


text \<open>
  The page where \<open>.markdown.prose\<close> ends in \<open>Hello!\<close> and \<open>.message-content\<close> holds
  a longer text.
\<close>

definition fallback_page :: page where
  "fallback_page =
     page_of
       [((CSS_SELECTOR, ''#prompt-textarea''), [1]),
        ((CSS_SELECTOR, ''button[data-testid='send-button']''), [2]),
        ((CSS_SELECTOR, ''.markdown.prose''), [3, 4]),
        ((CSS_SELECTOR, ''.message-content''), [5])] []
       [(3, ''An earlier answer of the agent''),
        (4, ''Hello!''),
        (5, ''Another container with text'')]"

text \<open>A chat page whose only send button is disabled.\<close>

definition locked_page :: page where
  "locked_page =
     page_of
       [((CSS_SELECTOR, ''#prompt-textarea''), [1]),
        ((CSS_SELECTOR, ''button[data-testid='send-button']''), [2])] [2]
       []"

text \<open>A page of an unknown agent with nothing to type into.\<close>

definition bare_page :: page where
  "bare_page = page_of [((TAG_NAME, ''body''), [0])] [] [(0, ''Nothing to see here'')]"





text \<open>A service just constructed, and one whose driver is already set.\<close>

definition fresh :: "'w \<Rightarrow> 'w session" where
  "fresh w = \<lparr> headless = True, driver = False, world = w \<rparr>"

definition ready :: "'w \<Rightarrow> 'w session" where
  "ready w = \<lparr> headless = True, driver = True, world = w \<rparr>"

section \<open>What the proofs speak of\<close>

text \<open>
  \<open>returns m Q\<close>: whenever \<open>m\<close> returns a value, \<open>Q\<close> holds of it. \<open>unfailing m\<close>:
  \<open>m\<close> returns a value from every state, it never raises.
\<close>

definition returns :: "('a, 'w) action \<Rightarrow> ('a \<Rightarrow> bool) \<Rightarrow> bool" where
  "returns m Q = (\<forall>s r s'. m s = (Inr r, s') \<longrightarrow> Q r)"

definition unfailing :: "('a, 'w) action \<Rightarrow> bool" where
  "unfailing m = (\<forall>s. \<exists>r s'. m s = (Inr r, s'))"

text \<open>
  The record kept by \<open>logged\<close>. An action is silent when it leaves the record alone,
  asking when it only adds answers of \<open>is_enabled()\<close>, and guarded when it adds such
  answers and then either nothing more, without returning a text, or one \<open>True\<close> answer
  for an element and one click on that element.
\<close>

definition trace :: "('w \<times> event list) session \<Rightarrow> event list" where
  "trace s = snd (world s)"

definition silent :: "('a, 'w \<times> event list) action \<Rightarrow> bool" where
  "silent m = (\<forall>s r s'. m s = (r, s') \<longrightarrow> trace s' = trace s)"

definition asking :: "('a, 'w \<times> event list) action \<Rightarrow> bool" where
  "asking m = (\<forall>s r s'. m s = (r, s') \<longrightarrow>
     (\<exists>qs. list_all is_asked qs \<and> trace s' = trace s @ qs))"

definition click_shape :: "event list \<Rightarrow> exn + string option \<Rightarrow> event list \<Rightarrow> bool" where
  "click_shape tr r tr' =
     (\<exists>qs. list_all is_asked qs \<and>
        ((tr' = tr @ qs \<and> (\<forall>t. r \<noteq> Inr (Some t)))
         \<or> (\<exists>e. tr' = tr @ qs @ [Asked_enabled e True, Clicked e])))"

definition guarded :: "(string option, 'w \<times> event list) action \<Rightarrow> bool" where
  "guarded m = (\<forall>s r s'. m s = (r, s') \<longrightarrow> click_shape (trace s) r (trace s'))"

text \<open>
  Forgetting the record: \<open>mirrors m' m\<close> says that every run of \<open>m'\<close> with the record
  is, once the record is forgotten, the run of \<open>m\<close> without it.
\<close>

definition erase :: "('w \<times> event list) session \<Rightarrow> 'w session" where
  "erase s = \<lparr> headless = headless s, driver = driver s, world = fst (world s) \<rparr>"

definition mirrors :: "('a, 'w \<times> event list) action \<Rightarrow> ('a, 'w) action \<Rightarrow> bool" where
  "mirrors m' m = (\<forall>s r s'. m' s = (r, s') \<longrightarrow> m (erase s) = (r, erase s'))"

section \<open>Facts about strings\<close>

lemma str_contains_iff: "str_contains sub s \<longleftrightarrow> (\<exists>ps ss. s = ps @ sub @ ss)"
proof (induction s)
  case Nil
  then show ?case by auto
next
  case (Cons c cs)
  show ?case
  proof
    assume "str_contains sub (c # cs)"
    then consider "prefix sub (c # cs)" | "str_contains sub cs" by auto
    then show "\<exists>ps ss. c # cs = ps @ sub @ ss"
    proof cases
      case 1
      then obtain ss where "c # cs = sub @ ss" by (auto simp: prefix_def)
      then have "c # cs = [] @ sub @ ss" by simp
      then show ?thesis by blast
    next
      case 2
      with Cons.IH obtain ps ss where "cs = ps @ sub @ ss" by blast
      then have "c # cs = (c # ps) @ sub @ ss" by simp
      then show ?thesis by blast
    qed
  next
    assume "\<exists>ps ss. c # cs = ps @ sub @ ss"
    then obtain ps ss where eq: "c # cs = ps @ sub @ ss" by blast
    show "str_contains sub (c # cs)"
    proof (cases ps)
      case Nil
      with eq have "prefix sub (c # cs)" by (simp add: prefix_def)
      then show ?thesis by simp
    next
      case (Cons p ps')
      with eq have "cs = ps' @ sub @ ss" by simp
      with Cons.IH have "str_contains sub cs" by blast
      then show ?thesis by simp
    qed
  qed
qed

section \<open>Facts about actions\<close>

lemma returnsD: "returns m Q \<Longrightarrow> m s = (Inr r, s') \<Longrightarrow> Q r"
  by (auto simp: returns_def)

lemma returns_xreturn: "Q x \<Longrightarrow> returns (xreturn x) Q"
  by (simp add: returns_def xreturn_def)

lemma returns_xbind: "(\<And>x. returns (f x) Q) \<Longrightarrow> returns (xbind m f) Q"
  by (auto simp: returns_def xbind_def split: prod.splits sum.splits)

lemma returns_try_except:
  "returns m Q \<Longrightarrow> (\<And>e. returns (h e) Q) \<Longrightarrow> returns (try_except m c h) Q"
  by (auto simp: returns_def try_except_def split: prod.splits sum.splits if_splits)

lemma returns_response_of:
  "returns (response_of b sel) (\<lambda>r. \<forall>t. r = Some t \<longrightarrow> 10 < length t)"
  unfolding response_of_def
  by (intro returns_try_except returns_xbind returns_xreturn) 
     (auto simp: Let_def intro!: returns_xbind returns_xreturn)

lemma returns_xbind_after:
  "returns m P \<Longrightarrow> (\<And>x. P x \<Longrightarrow> returns (f x) Q) \<Longrightarrow> returns (xbind m f) Q"
  unfolding returns_def xbind_def
  by (fastforce split: prod.splits sum.splits)

lemma returns_find_response:
  "returns (find_response b sels) (\<lambda>r. \<forall>t. r = Some t \<longrightarrow> 10 < length t)"
proof (induction sels)
  case Nil
  show ?case by (simp add: returns_xreturn)
next
  case (Cons sel sels)
  show ?case
    unfolding find_response.simps
  proof (rule returns_xbind_after [OF returns_response_of])
    fix r :: "string option"
    assume "\<forall>t. r = Some t \<longrightarrow> 10 < length t"
    then show "returns (case r of None \<Rightarrow> find_response b sels | Some t \<Rightarrow> xreturn (Some t))
          (\<lambda>r. \<forall>t. r = Some t \<longrightarrow> 10 < length t)"
      using Cons.IH by (cases r) (auto intro: returns_xreturn)
  qed
qed

lemma returns_handle_chatgpt:
  "returns (handle_chatgpt_interaction b url msg) (\<lambda>r. \<forall>t. r = Some t \<longrightarrow> 10 < length t)"
  unfolding handle_chatgpt_interaction_def
  by (intro returns_try_except returns_xbind returns_xreturn)
     (auto split: option.splits intro!: returns_xbind returns_xreturn returns_find_response)

lemma unfailing_try_except:
  "(\<And>e. unfailing (h e)) \<Longrightarrow> unfailing (try_except m is_Exception h)"
  by (auto simp: unfailing_def try_except_def split: prod.splits sum.splits)

lemma unfailing_xreturn: "unfailing (xreturn x)"
  by (simp add: unfailing_def xreturn_def)

lemma unfailing_handle_chatgpt: "unfailing (handle_chatgpt_interaction b url msg)"
  unfolding handle_chatgpt_interaction_def
  by (intro unfailing_try_except unfailing_xreturn)




lemma returns_if_not: "returns m Q \<Longrightarrow> returns n Q \<Longrightarrow> returns (if c then m else n) Q"
  by simp

lemma returns_True: "returns m (\<lambda>r. True)"
  by (simp add: returns_def)

lemma unfailingD: "unfailing m \<Longrightarrow> \<exists>r s'. m s = (Inr r, s')"
  unfolding unfailing_def by blast

lemma unfailing_response_of: "unfailing (response_of b sel)"
  unfolding response_of_def
  by (intro unfailing_try_except unfailing_xreturn)

section \<open>The response loop\<close>

lemma response_of_Some_iff:
  "response_of b sel s = (Inr (Some t), s') \<longleftrightarrow>
     (\<exists>els raw s1. drv (find_elements b (CSS_SELECTOR, sel)) s = (Inr els, s1) \<and> els \<noteq> []
        \<and> io (el_text b (last els)) s1 = (Inr raw, s') \<and> t = strip raw \<and> 10 < length t)"
  unfolding response_of_def try_except_def xbind_def xreturn_def Let_def
  by (auto split: prod.splits sum.splits if_splits)

lemma find_response_Cons_None:
  "find_response b (sel # sels) s = (Inr None, s') \<longleftrightarrow>
     (\<exists>s1. response_of b sel s = (Inr None, s1) \<and> find_response b sels s1 = (Inr None, s'))"
  by (auto simp: xbind_def xreturn_def split: prod.splits sum.splits option.splits)

lemma find_response_Cons_Some:
  "find_response b (sel # sels) s = (Inr (Some t), s') \<longleftrightarrow>
     response_of b sel s = (Inr (Some t), s')
     \<or> (\<exists>s1. response_of b sel s = (Inr None, s1) \<and> find_response b sels s1 = (Inr (Some t), s'))"
  by (auto simp: xbind_def xreturn_def split: prod.splits sum.splits option.splits)

lemma find_response_Some_iff:
  "find_response b sels s = (Inr (Some t), s') \<longleftrightarrow>
     (\<exists>pre sel post s1. sels = pre @ sel # post
        \<and> find_response b pre s = (Inr None, s1)
        \<and> response_of b sel s1 = (Inr (Some t), s'))"
proof (induction sels arbitrary: s)
  case Nil
  show ?case by (simp add: xreturn_def)
next
  case (Cons a sels)
  show ?case
  proof
    assume "find_response b (a # sels) s = (Inr (Some t), s')"
    then consider "response_of b a s = (Inr (Some t), s')"
      | s1 where "response_of b a s = (Inr None, s1)" "find_response b sels s1 = (Inr (Some t), s')"
      unfolding find_response_Cons_Some by blast
    then show "\<exists>pre sel post s1. a # sels = pre @ sel # post
        \<and> find_response b pre s = (Inr None, s1)
        \<and> response_of b sel s1 = (Inr (Some t), s')"
    proof cases
      case 1
      then have "a # sels = [] @ a # sels \<and> find_response b [] s = (Inr None, s)
          \<and> response_of b a s = (Inr (Some t), s')"
        by (simp add: xreturn_def)
      then show ?thesis by blast
    next
      case 2
      from 2(2) Cons.IH [of s1] obtain pre sel post s2 where
        "sels = pre @ sel # post" "find_response b pre s1 = (Inr None, s2)"
        "response_of b sel s2 = (Inr (Some t), s')"
        by blast
      with 2(1) have "a # sels = (a # pre) @ sel # post
          \<and> find_response b (a # pre) s = (Inr None, s2)
          \<and> response_of b sel s2 = (Inr (Some t), s')"
        by (auto simp: find_response_Cons_None simp del: find_response.simps)
      then show ?thesis by blast
    qed
  next
    assume "\<exists>pre sel post s1. a # sels = pre @ sel # post
        \<and> find_response b pre s = (Inr None, s1)
        \<and> response_of b sel s1 = (Inr (Some t), s')"
    then obtain pre sel post s1 where eq: "a # sels = pre @ sel # post"
      and miss: "find_response b pre s = (Inr None, s1)"
      and hit: "response_of b sel s1 = (Inr (Some t), s')"
      by blast
    show "find_response b (a # sels) s = (Inr (Some t), s')"
    proof (cases pre)
      case Nil
      with eq miss hit have "response_of b a s = (Inr (Some t), s')"
        by (simp add: xreturn_def)
      then show ?thesis unfolding find_response_Cons_Some by blast
    next
      case (Cons p pre')
      with eq have a: "p = a" and sels: "sels = pre' @ sel # post" by simp_all
      from miss Cons a have "find_response b (a # pre') s = (Inr None, s1)" by simp
      then obtain s0 where first: "response_of b a s = (Inr None, s0)"
        and rest: "find_response b pre' s0 = (Inr None, s1)"
        unfolding find_response_Cons_None by blast
      from sels rest hit Cons.IH [of s0] have "find_response b sels s0 = (Inr (Some t), s')"
        by blast
      with first show ?thesis unfolding find_response_Cons_Some by blast
    qed
  qed
qed

lemma unfailing_find_response: "unfailing (find_response b sels)"
proof (induction sels)
  case Nil
  show ?case by (simp add: unfailing_xreturn)
next
  case (Cons a sels)
  show ?case
    unfolding unfailing_def
  proof
    fix s
    from unfailingD [OF unfailing_response_of] obtain r1 s1
      where r1: "response_of b a s = (Inr r1, s1)" by blast
    from unfailingD [OF Cons.IH] obtain r2 s2
      where r2: "find_response b sels s1 = (Inr r2, s2)" by blast
    from r1 r2 show "\<exists>r s'. find_response b (a # sels) s = (Inr r, s')"
      by (cases r1) (simp_all add: xbind_def xreturn_def)
  qed
qed

section \<open>Facts about the record of clicks\<close>

lemma askingD:
  "asking m \<Longrightarrow> m s = (r, s') \<Longrightarrow> \<exists>qs. list_all is_asked qs \<and> trace s' = trace s @ qs"
  unfolding asking_def by blast

lemma silentD: "silent m \<Longrightarrow> m s = (r, s') \<Longrightarrow> trace s' = trace s"
  unfolding silent_def by blast

lemma silent_asking: "silent m \<Longrightarrow> asking m"
proof -
  assume m: "silent m"
  have "\<exists>qs. list_all is_asked qs \<and> trace s' = trace s @ qs" if "m s = (r, s')" for s r s'
  proof -
    from silentD [OF m that] have "list_all is_asked [] \<and> trace s' = trace s @ []" by simp
    then show ?thesis by blast
  qed
  then show ?thesis unfolding asking_def by blast
qed

lemma silent_xreturn: "silent (xreturn x)"
  by (simp add: silent_def xreturn_def)

lemma silent_xbind: "silent m \<Longrightarrow> (\<And>x. silent (f x)) \<Longrightarrow> silent (xbind m f)"
  unfolding silent_def xbind_def
  by (fastforce split: prod.splits sum.splits)

lemma silent_try_except: "silent m \<Longrightarrow> (\<And>e. silent (h e)) \<Longrightarrow> silent (try_except m c h)"
  unfolding silent_def try_except_def
  by (fastforce split: prod.splits sum.splits if_splits)

lemma silent_io_keep: "silent (io (keep f))"
  by (auto simp: silent_def io_def keep_def trace_def split: prod.splits)

lemma silent_drv_keep: "silent (drv (keep f))"
  by (auto simp: silent_def drv_def io_def keep_def trace_def split: prod.splits)

lemma silent_sleep: "silent (sleep (logged b) n)"
  by (auto simp: silent_def sleep_def logged_def trace_def split: prod.splits)

lemma logged_simps:
  "driver_get (logged b) url = keep (driver_get b url)"
  "wait_presence (logged b) sel = keep (wait_presence b sel)"
  "find_element (logged b) loc = keep (find_element b loc)"
  "find_elements (logged b) loc = keep (find_elements b loc)"
  "el_clear (logged b) e = keep (el_clear b e)"
  "el_send_keys (logged b) e keys = keep (el_send_keys b e keys)"
  "el_is_displayed (logged b) e = keep (el_is_displayed b e)"
  "el_text (logged b) e = keep (el_text b e)"
  by (simp_all add: logged_def)

lemma asking_xreturn: "asking (xreturn x)"
  by (simp add: silent_asking silent_xreturn)

lemma asking_xbind: "asking m \<Longrightarrow> (\<And>x. asking (f x)) \<Longrightarrow> asking (xbind m f)"
proof -
  assume m: "asking m" and f: "\<And>x. asking (f x)"
  show "asking (xbind m f)"
    unfolding asking_def
  proof (intro allI impI)
    fix s r s' assume run: "xbind m f s = (r, s')"
    obtain r1 s1 where m1: "m s = (r1, s1)" by (cases "m s")
    from askingD [OF m m1] obtain qs1 where q1: "list_all is_asked qs1" "trace s1 = trace s @ qs1"
      by blast
    show "\<exists>qs. list_all is_asked qs \<and> trace s' = trace s @ qs"
    proof (cases r1)
      case (Inl e)
      with run m1 have "s' = s1" by (simp add: xbind_def)
      with q1 show ?thesis by blast
    next
      case (Inr x)
      with run m1 have "f x s1 = (r, s')" by (simp add: xbind_def)
      from askingD [OF f this] obtain qs2 where "list_all is_asked qs2" "trace s' = trace s1 @ qs2"
        by blast
      with q1 have "list_all is_asked (qs1 @ qs2)" "trace s' = trace s @ qs1 @ qs2"
        by simp_all
      then show ?thesis by blast
    qed
  qed
qed

lemma asking_is_enabled: "asking (io (el_is_enabled (logged b) e))"
  by (auto simp: asking_def io_def logged_def trace_def split: prod.splits sum.splits)

lemma silent_find_text_area: "silent (find_text_area (logged b) sels)"
  by (induction sels)
     (auto simp: logged_simps intro!: silent_xreturn silent_try_except silent_xbind silent_drv_keep)

lemma silent_response_of: "silent (response_of (logged b) sel)"
  unfolding response_of_def
  by (auto simp: logged_simps Let_def
      intro!: silent_xreturn silent_try_except silent_xbind silent_drv_keep silent_io_keep)

lemma silent_find_response: "silent (find_response (logged b) sels)"
  by (induction sels)
     (auto split: option.splits intro!: silent_xreturn silent_xbind silent_response_of)

lemma asking_find_send_button: "asking (find_send_button (logged b) cur sels)"
proof (induction sels arbitrary: cur)
  case Nil
  show ?case by (simp add: asking_xreturn)
next
  case (Cons sel sels)
  show ?case
    unfolding asking_def
  proof (intro allI impI)
    fix s r s' assume run: "find_send_button (logged b) cur (sel # sels) s = (r, s')"
    obtain r1 s1 where f1: "drv (find_element (logged b) (CSS_SELECTOR, sel)) s = (r1, s1)"
      by (cases "drv (find_element (logged b) (CSS_SELECTOR, sel)) s")
    then have t1: "trace s1 = trace s"
      using silentD [OF silent_drv_keep, of "find_element b (CSS_SELECTOR, sel)" s r1 s1]
      by (simp add: logged_simps)
    have rest: "\<exists>qs. list_all is_asked qs \<and> trace s'' = trace s0 @ qs"
      if "find_send_button (logged b) c sels s0 = (r', s'')" for c s0 r' s''
      using askingD [OF Cons.IH that] .
    show "\<exists>qs. list_all is_asked qs \<and> trace s' = trace s @ qs"
    proof (cases r1)
      case (Inl e)
      show ?thesis
      proof (cases "is_NoSuchElementException e")
        case True
        with run f1 Inl have "find_send_button (logged b) cur sels s1 = (r, s')" by simp
        from rest [OF this] t1 show ?thesis by simp
      next
        case False
        with run f1 Inl have "s' = s1" by simp
        with t1 have "list_all is_asked [] \<and> trace s' = trace s @ []" by simp
        then show ?thesis by blast
      qed
    next
      case (Inr found)
      obtain r2 s2 where f2: "io (el_is_enabled (logged b) found) s1 = (r2, s2)"
        by (cases "io (el_is_enabled (logged b) found) s1")
      from askingD [OF asking_is_enabled f2] t1 obtain qs1
        where q1: "list_all is_asked qs1" "trace s2 = trace s @ qs1"
        by auto
      have stop: ?thesis if "s' = s2"
        using that q1 by blast
      have cont: ?thesis if "find_send_button (logged b) (Some found) sels s2 = (r, s')"
      proof -
        from rest [OF that] obtain qs2 where "list_all is_asked qs2" "trace s' = trace s2 @ qs2"
          by blast
        with q1 have "list_all is_asked (qs1 @ qs2) \<and> trace s' = trace s @ qs1 @ qs2" by simp
        then show ?thesis by blast
      qed
      show ?thesis
      proof (cases r2)
        case (Inl e)
        with run f1 f2 Inr show ?thesis
          by (cases "is_NoSuchElementException e") (auto intro: stop cont)
      next
        case (Inr enabled)
        with run f1 f2 \<open>r1 = Inr found\<close> show ?thesis
          by (cases enabled) (auto intro: stop cont)
      qed
    qed
  qed
qed


lemma guardedD: "guarded m \<Longrightarrow> m s = (r, s') \<Longrightarrow> click_shape (trace s) r (trace s')"
  unfolding guarded_def
  by (erule allE [of _ s], erule allE [of _ r], erule allE [of _ s'], erule impE, assumption,
      assumption)

lemma guardedI: "(\<And>s r s'. m s = (r, s') \<Longrightarrow> click_shape (trace s) r (trace s')) \<Longrightarrow> guarded m"
  unfolding guarded_def by (intro allI impI)

lemma shape_asked:
  "list_all is_asked qs \<Longrightarrow> (\<forall>t. r \<noteq> Inr (Some t)) \<Longrightarrow> click_shape tr r (tr @ qs)"
  unfolding click_shape_def by (intro exI [of _ qs]) simp

lemma shape_clicked:
  "list_all is_asked qs \<Longrightarrow> click_shape tr r (tr @ qs @ [Asked_enabled e True, Clicked e])"
  unfolding click_shape_def by (intro exI [of _ qs]) simp

lemma shape_after:
  assumes "list_all is_asked qs1" and "click_shape (tr @ qs1) r tr'"
  shows "click_shape tr r tr'"
proof -
  from assms(2) obtain qs2 where q2: "list_all is_asked qs2"
    and alt: "(tr' = (tr @ qs1) @ qs2 \<and> (\<forall>t. r \<noteq> Inr (Some t)))
         \<or> (\<exists>e. tr' = (tr @ qs1) @ qs2 @ [Asked_enabled e True, Clicked e])"
    unfolding click_shape_def by (elim exE conjE)
  from assms(1) q2 have all: "list_all is_asked (qs1 @ qs2)" by simp
  from alt show ?thesis
  proof
    assume "tr' = (tr @ qs1) @ qs2 \<and> (\<forall>t. r \<noteq> Inr (Some t))"
    then have "tr' = tr @ (qs1 @ qs2)" "\<forall>t. r \<noteq> Inr (Some t)" by simp_all
    with shape_asked [OF all, of r tr] show ?thesis by simp
  next
    assume "\<exists>e. tr' = (tr @ qs1) @ qs2 @ [Asked_enabled e True, Clicked e]"
    then obtain e where "tr' = tr @ (qs1 @ qs2) @ [Asked_enabled e True, Clicked e]" by auto
    with shape_clicked [OF all, of tr r e] show ?thesis by simp
  qed
qed

lemma shape_result:
  assumes "click_shape tr r tr'" and "\<forall>t. r' \<noteq> Inr (Some t)"
  shows "click_shape tr r' tr'"
proof -
  from assms(1) obtain qs where q: "list_all is_asked qs"
    and alt: "(tr' = tr @ qs \<and> (\<forall>t. r \<noteq> Inr (Some t)))
         \<or> (\<exists>e. tr' = tr @ qs @ [Asked_enabled e True, Clicked e])"
    unfolding click_shape_def by (elim exE conjE)
  from alt show ?thesis
  proof
    assume "tr' = tr @ qs \<and> (\<forall>t. r \<noteq> Inr (Some t))"
    with shape_asked [OF q assms(2), of tr] show ?thesis by simp
  next
    assume "\<exists>e. tr' = tr @ qs @ [Asked_enabled e True, Clicked e]"
    then obtain e where "tr' = tr @ qs @ [Asked_enabled e True, Clicked e]" ..
    with shape_clicked [OF q, of tr r' e] show ?thesis by simp
  qed
qed

lemma guarded_xreturn_None: "guarded (xreturn None)"
proof (rule guardedI)
  fix s :: "('a \<times> event list) session" and r :: "exn + string option" and s'
  assume "xreturn None s = (r, s')"
  then have "r = Inr None" "s' = s" by (simp_all add: xreturn_def)
  with shape_asked [of "[]" r "trace s"] show "click_shape (trace s) r (trace s')" by simp
qed

lemma guarded_xbind:
  assumes m: "asking m" and f: "\<And>x. guarded (f x)"
  shows "guarded (xbind m f)"
proof (rule guardedI)
  fix s r s' assume run: "xbind m f s = (r, s')"
  obtain r1 s1 where m1: "m s = (r1, s1)" by (cases "m s")
  from askingD [OF m m1] obtain qs1 where q1: "list_all is_asked qs1" "trace s1 = trace s @ qs1"
    by blast
  show "click_shape (trace s) r (trace s')"
  proof (cases r1)
    case (Inl e)
    with run m1 have "s' = s1" "r = Inl e" by (simp_all add: xbind_def)
    with q1 shape_asked [OF q1(1), of r "trace s"] show ?thesis by simp
  next
    case (Inr x)
    with run m1 have "f x s1 = (r, s')" by (simp add: xbind_def)
    from guardedD [OF f this] q1 have "click_shape (trace s @ qs1) r (trace s')" by simp
    from shape_after [OF q1(1) this] show ?thesis .
  qed
qed

lemma guarded_try_except:
  assumes m: "guarded m"
  shows "guarded (try_except m c (\<lambda>e. xreturn None))"
proof (rule guardedI)
  fix s r s' assume run: "try_except m c (\<lambda>e. xreturn None) s = (r, s')"
  obtain r1 s1 where m1: "m s = (r1, s1)" by (cases "m s")
  from guardedD [OF m m1] have sh: "click_shape (trace s) r1 (trace s1)" .
  from run m1 have s': "s' = s1" and alt: "r = r1 \<or> r = Inr None"
    by (auto simp: try_except_def xreturn_def split: sum.splits if_splits)
  from alt show "click_shape (trace s) r (trace s')"
  proof
    assume "r = r1" with sh s' show ?thesis by simp
  next
    assume "r = Inr None"
    then have "\<forall>t. r \<noteq> Inr (Some t)" by simp
    from shape_result [OF sh this] s' show ?thesis by simp
  qed
qed

lemma guarded_click:
  assumes rest: "silent rest"
  shows "guarded (xbind (io (el_is_enabled (logged b) e)) (\<lambda>enabled.
           if \<not> enabled then xreturn None
           else xbind (io (el_click (logged b) e)) (\<lambda>_. rest)))"
proof (rule guardedI)
  fix s r s'
  assume run: "xbind (io (el_is_enabled (logged b) e)) (\<lambda>enabled.
           if \<not> enabled then xreturn None
           else xbind (io (el_click (logged b) e)) (\<lambda>_. rest)) s = (r, s')"
  obtain r1 s1 where a: "io (el_is_enabled (logged b) e) s = (r1, s1)"
    by (cases "io (el_is_enabled (logged b) e) s")
  show "click_shape (trace s) r (trace s')"
  proof (cases r1)
    case (Inl x)
    with a have "trace s1 = trace s"
      by (auto simp: io_def logged_def trace_def split: prod.splits sum.splits)
    moreover from run a Inl have "s' = s1" "r = Inl x" by (simp_all add: xbind_def)
    ultimately show ?thesis using shape_asked [of "[]" r "trace s"] by simp
  next
    case (Inr enabled)
    with a have t1: "trace s1 = trace s @ [Asked_enabled e enabled]"
      by (auto simp: io_def logged_def trace_def split: prod.splits sum.splits)
    show ?thesis
    proof (cases enabled)
      case False
      with run a Inr have "s' = s1" "r = Inr None" by (simp_all add: xbind_def xreturn_def)
      with t1 shape_asked [of "[Asked_enabled e enabled]" r "trace s"] show ?thesis by simp
    next
      case True
      obtain r2 s2 where c: "io (el_click (logged b) e) s1 = (r2, s2)"
        by (cases "io (el_click (logged b) e) s1")
      then have t2: "trace s2 = trace s1 @ [Clicked e]"
        by (auto simp: io_def logged_def trace_def split: prod.splits)
      have "trace s' = trace s2"
      proof (cases r2)
        case (Inl x)
        with run a Inr True c show ?thesis by (simp add: xbind_def)
      next
        case (Inr u)
        with run a \<open>r1 = Inr enabled\<close> True c have "rest s2 = (r, s')" by (simp add: xbind_def)
        from silentD [OF rest this] show ?thesis .
      qed
      with t1 t2 True shape_clicked [of "[]" "trace s" r e] show ?thesis by simp
    qed
  qed
qed

lemma guarded_handle_chatgpt: "guarded (handle_chatgpt_interaction (logged b) url msg)"
proof -
  have rest: "silent (xbind (sleep (logged b) 3) (\<lambda>_. find_response (logged b) sels))" for sels
    by (intro silent_xbind silent_sleep silent_find_response)
  have button: "guarded (case button of None \<Rightarrow> xreturn None
        | Some send_button \<Rightarrow>
        xbind (io (el_is_enabled (logged b) send_button)) (\<lambda>enabled.
        if \<not> enabled then xreturn None
        else
        xbind (io (el_click (logged b) send_button)) (\<lambda>_.
        xbind (sleep (logged b) 3) (\<lambda>_.
        find_response (logged b) chatgpt_response_selectors))))" for button
    by (cases button) (simp_all add: guarded_xreturn_None guarded_click [OF rest])
  have area: "guarded (case found of None \<Rightarrow> xreturn None
        | Some text_area \<Rightarrow>
        xbind (io (el_clear (logged b) text_area)) (\<lambda>_.
        xbind (io (el_send_keys (logged b) text_area msg)) (\<lambda>_.
        xbind (find_send_button (logged b) None chatgpt_send_selectors) (\<lambda>button.
        case button of None \<Rightarrow> xreturn None
        | Some send_button \<Rightarrow>
        xbind (io (el_is_enabled (logged b) send_button)) (\<lambda>enabled.
        if \<not> enabled then xreturn None
        else
        xbind (io (el_click (logged b) send_button)) (\<lambda>_.
        xbind (sleep (logged b) 3) (\<lambda>_.
        find_response (logged b) chatgpt_response_selectors)))))))" for found
  proof (cases found)
    case None
    then show ?thesis by (simp add: guarded_xreturn_None)
  next
    case (Some text_area)
    show ?thesis
      unfolding Some option.case logged_simps
      by (intro guarded_xbind silent_asking silent_io_keep asking_find_send_button button)
  qed
  show ?thesis
    unfolding handle_chatgpt_interaction_def
    apply (rule guarded_try_except)
    apply (rule guarded_xbind)
     apply (simp add: logged_simps silent_asking silent_drv_keep)
    apply (rule guarded_xbind)
     apply (rule silent_asking [OF silent_find_text_area])
    apply (rule area)
    done
qed

section \<open>The record does not change the run\<close>

lemma mirrorsD: "mirrors m' m \<Longrightarrow> m' s = (r, s') \<Longrightarrow> m (erase s) = (r, erase s')"
  unfolding mirrors_def by blast

lemma mirrors_xreturn: "mirrors (xreturn x) (xreturn x)"
  by (simp add: mirrors_def xreturn_def)

lemma mirrors_xbind:
  assumes m: "mirrors m' m" and f: "\<And>x. mirrors (f' x) (f x)"
  shows "mirrors (xbind m' f') (xbind m f)"
  unfolding mirrors_def
proof (intro allI impI)
  fix s r s' assume run: "xbind m' f' s = (r, s')"
  obtain r1 s1 where m1: "m' s = (r1, s1)" by (cases "m' s")
  from mirrorsD [OF m m1] have e1: "m (erase s) = (r1, erase s1)" .
  show "xbind m f (erase s) = (r, erase s')"
  proof (cases r1)
    case (Inl e)
    with run m1 e1 show ?thesis by (simp add: xbind_def)
  next
    case (Inr x)
    with run m1 have "f' x s1 = (r, s')" by (simp add: xbind_def)
    from mirrorsD [OF f this] Inr e1 show ?thesis by (simp add: xbind_def)
  qed
qed

lemma mirrors_try_except:
  assumes m: "mirrors m' m" and h: "\<And>e. mirrors (h' e) (h e)"
  shows "mirrors (try_except m' c h') (try_except m c h)"
  unfolding mirrors_def
proof (intro allI impI)
  fix s r s' assume run: "try_except m' c h' s = (r, s')"
  obtain r1 s1 where m1: "m' s = (r1, s1)" by (cases "m' s")
  from mirrorsD [OF m m1] have e1: "m (erase s) = (r1, erase s1)" .
  show "try_except m c h (erase s) = (r, erase s')"
  proof (cases r1)
    case (Inl e)
    show ?thesis
    proof (cases "c e")
      case True
      with run m1 Inl have "h' e s1 = (r, s')" by (simp add: try_except_def)
      from mirrorsD [OF h this] Inl True e1 show ?thesis by (simp add: try_except_def)
    next
      case False
      with run m1 Inl e1 show ?thesis by (auto simp: try_except_def)
    qed
  next
    case (Inr x)
    with run m1 e1 show ?thesis by (auto simp: try_except_def)
  qed
qed

lemma mirrors_io_keep: "mirrors (io (keep f)) (io f)"
  by (auto simp: mirrors_def io_def keep_def erase_def split: prod.splits)

lemma mirrors_drv_keep: "mirrors (drv (keep f)) (drv f)"
  by (auto simp: mirrors_def drv_def io_def keep_def erase_def split: prod.splits)

lemma mirrors_is_enabled: "mirrors (io (el_is_enabled (logged b) e)) (io (el_is_enabled b e))"
  by (auto simp: mirrors_def io_def logged_def erase_def split: prod.splits sum.splits)

lemma mirrors_click: "mirrors (io (el_click (logged b) e)) (io (el_click b e))"
  by (auto simp: mirrors_def io_def logged_def erase_def split: prod.splits)

lemma mirrors_sleep: "mirrors (sleep (logged b) n) (sleep b n)"
  by (auto simp: mirrors_def sleep_def logged_def erase_def split: prod.splits)

lemma mirrors_find_text_area: "mirrors (find_text_area (logged b) sels) (find_text_area b sels)"
  by (induction sels)
     (auto simp: logged_simps intro!: mirrors_xreturn mirrors_try_except mirrors_xbind
        mirrors_drv_keep)

lemma mirrors_response_of: "mirrors (response_of (logged b) sel) (response_of b sel)"
  unfolding response_of_def
  by (auto simp: logged_simps Let_def
      intro!: mirrors_xreturn mirrors_try_except mirrors_xbind mirrors_drv_keep mirrors_io_keep)

lemma mirrors_find_response: "mirrors (find_response (logged b) sels) (find_response b sels)"
  by (induction sels)
     (auto split: option.splits intro!: mirrors_xreturn mirrors_xbind mirrors_response_of)

lemma mirrors_find_send_button:
  "mirrors (find_send_button (logged b) cur sels) (find_send_button b cur sels)"
proof (induction sels arbitrary: cur)
  case Nil
  show ?case by (simp add: mirrors_xreturn)
next
  case (Cons sel sels)
  show ?case
    unfolding mirrors_def
  proof (intro allI impI)
    fix s r s' assume run: "find_send_button (logged b) cur (sel # sels) s = (r, s')"
    obtain r1 s1 where f1: "drv (find_element (logged b) (CSS_SELECTOR, sel)) s = (r1, s1)"
      by (cases "drv (find_element (logged b) (CSS_SELECTOR, sel)) s")
    then have e1: "drv (find_element b (CSS_SELECTOR, sel)) (erase s) = (r1, erase s1)"
      using mirrorsD [OF mirrors_drv_keep, of "find_element b (CSS_SELECTOR, sel)" s r1 s1]
      by (simp add: logged_simps)
    show "find_send_button b cur (sel # sels) (erase s) = (r, erase s')"
    proof (cases r1)
      case (Inl e)
      show ?thesis
      proof (cases "is_NoSuchElementException e")
        case True
        with run f1 Inl have "find_send_button (logged b) cur sels s1 = (r, s')" by simp
        from mirrorsD [OF Cons.IH this] e1 Inl True show ?thesis by simp
      next
        case False
        with run f1 e1 Inl show ?thesis by simp
      qed
    next
      case (Inr found)
      obtain r2 s2 where f2: "io (el_is_enabled (logged b) found) s1 = (r2, s2)"
        by (cases "io (el_is_enabled (logged b) found) s1")
      from mirrorsD [OF mirrors_is_enabled f2]
      have e2: "io (el_is_enabled b found) (erase s1) = (r2, erase s2)" .
      have cont: "find_send_button b (Some found) sels (erase s2) = (r, erase s')"
        if "find_send_button (logged b) (Some found) sels s2 = (r, s')"
        using mirrorsD [OF Cons.IH that] .
      show ?thesis
      proof (cases r2)
        case (Inl e)
        with run f1 f2 e1 e2 Inr show ?thesis
          by (cases "is_NoSuchElementException e") (auto simp: cont)
      next
        case (Inr enabled)
        with run f1 f2 e1 e2 \<open>r1 = Inr found\<close> show ?thesis
          by (cases enabled) (auto simp: cont)
      qed
    qed
  qed
qed

lemma mirrors_handle_chatgpt:
  "mirrors (handle_chatgpt_interaction (logged b) url msg) (handle_chatgpt_interaction b url msg)"
  unfolding handle_chatgpt_interaction_def logged_simps
  by (intro mirrors_try_except mirrors_xbind mirrors_xreturn mirrors_drv_keep mirrors_io_keep
        mirrors_find_text_area mirrors_find_send_button)
     (auto split: option.splits
        intro!: mirrors_xbind mirrors_xreturn mirrors_io_keep mirrors_find_send_button
          mirrors_is_enabled mirrors_click mirrors_sleep mirrors_find_response)

section \<open>Pages that stand still\<close>

lemma session_same [simp]: "s\<lparr>world := world s\<rparr> = s"
  by simp





lemmas run_defs = selenium_get_agent_response_def setup_driver_def start_chrome_def assign_driver_def
  handle_chatgpt_interaction_def handle_generic_interaction_def generic_attempt_def read_body_def
  response_of_def sleep_def drv_def io_def try_except_def xbind_def xreturn_def
  static_browser_def page_of_def fresh_def ready_def
  chatgpt_text_selectors_def chatgpt_send_selectors_def chatgpt_response_selectors_def
  generic_text_selectors_def generic_send_xpath_def trailing_slice_def
  selenium_detect_agent_type_def strip_def isspace_def Let_def

section \<open>The classifier\<close>

text \<open>
  C2. The detector of both services is a total function of the URL alone. The fragments
  are tested in a fixed order and the first that occurs decides: \<open>chatgpt.com\<close> or
  \<open>openai.com\<close> give \<open>chatgpt\<close>; otherwise \<open>claude.ai\<close> gives \<open>claude\<close>; otherwise
  \<open>bard.google.com\<close> or \<open>gemini.google.com\<close> give \<open>gemini\<close>; every other URL gives
  \<open>unknown\<close>. The two services agree, and one of the four values is always returned.
\<close>

theorem detect_agent_type_classifies:
  "(str_contains ''chatgpt.com'' url \<or> str_contains ''openai.com'' url
      \<longrightarrow> selenium_detect_agent_type url = ''chatgpt'')
   \<and> (\<not> str_contains ''chatgpt.com'' url \<and> \<not> str_contains ''openai.com'' url
        \<and> str_contains ''claude.ai'' url
      \<longrightarrow> selenium_detect_agent_type url = ''claude'')
   \<and> (\<not> str_contains ''chatgpt.com'' url \<and> \<not> str_contains ''openai.com'' url
        \<and> \<not> str_contains ''claude.ai'' url
        \<and> (str_contains ''bard.google.com'' url \<or> str_contains ''gemini.google.com'' url)
      \<longrightarrow> selenium_detect_agent_type url = ''gemini'')
   \<and> (\<not> str_contains ''chatgpt.com'' url \<and> \<not> str_contains ''openai.com'' url
        \<and> \<not> str_contains ''claude.ai'' url
        \<and> \<not> str_contains ''bard.google.com'' url \<and> \<not> str_contains ''gemini.google.com'' url
      \<longrightarrow> selenium_detect_agent_type url = ''unknown'')
   \<and> simple_detect_agent_type url = selenium_detect_agent_type url
   \<and> selenium_detect_agent_type url \<in> {''chatgpt'', ''claude'', ''gemini'', ''unknown''}"
  by (simp add: selenium_detect_agent_type_def simple_detect_agent_type_def)

theorem detect_agent_type_classifies_witness:
  "(str_contains ''openai.com'' ''https://chat.openai.com/claude.ai''
      \<and> selenium_detect_agent_type ''https://chat.openai.com/claude.ai'' = ''chatgpt'')
   \<and> (\<not> str_contains ''chatgpt.com'' ''https://claude.ai/gemini.google.com''
        \<and> \<not> str_contains ''openai.com'' ''https://claude.ai/gemini.google.com''
        \<and> str_contains ''claude.ai'' ''https://claude.ai/gemini.google.com''
        \<and> selenium_detect_agent_type ''https://claude.ai/gemini.google.com'' = ''claude'')
   \<and> (\<not> str_contains ''chatgpt.com'' ''https://gemini.google.com/app''
        \<and> \<not> str_contains ''openai.com'' ''https://gemini.google.com/app''
        \<and> \<not> str_contains ''claude.ai'' ''https://gemini.google.com/app''
        \<and> str_contains ''gemini.google.com'' ''https://gemini.google.com/app''
        \<and> selenium_detect_agent_type ''https://gemini.google.com/app'' = ''gemini'')
   \<and> (\<not> str_contains ''chatgpt.com'' ''https://example.com''
        \<and> \<not> str_contains ''openai.com'' ''https://example.com''
        \<and> \<not> str_contains ''claude.ai'' ''https://example.com''
        \<and> \<not> str_contains ''bard.google.com'' ''https://example.com''
        \<and> \<not> str_contains ''gemini.google.com'' ''https://example.com''
        \<and> selenium_detect_agent_type ''https://example.com'' = ''unknown'')"
proof -
  have c1: "str_contains ''openai.com'' ''https://chat.openai.com/claude.ai''"
    by simp
  have c2: "\<not> str_contains ''chatgpt.com'' ''https://claude.ai/gemini.google.com''"
    "\<not> str_contains ''openai.com'' ''https://claude.ai/gemini.google.com''"
    "str_contains ''claude.ai'' ''https://claude.ai/gemini.google.com''"
    by simp_all
  have c3: "\<not> str_contains ''chatgpt.com'' ''https://gemini.google.com/app''"
    "\<not> str_contains ''openai.com'' ''https://gemini.google.com/app''"
    "\<not> str_contains ''claude.ai'' ''https://gemini.google.com/app''"
    "str_contains ''gemini.google.com'' ''https://gemini.google.com/app''"
    by simp_all
  have c4: "\<not> str_contains ''chatgpt.com'' ''https://example.com''"
    "\<not> str_contains ''openai.com'' ''https://example.com''"
    "\<not> str_contains ''claude.ai'' ''https://example.com''"
    "\<not> str_contains ''bard.google.com'' ''https://example.com''"
    "\<not> str_contains ''gemini.google.com'' ''https://example.com''"
    by simp_all
  have r1: "selenium_detect_agent_type ''https://chat.openai.com/claude.ai'' = ''chatgpt''"
    using c1 detect_agent_type_classifies [of "''https://chat.openai.com/claude.ai''"]
    by (elim conjE) (erule mp, rule disjI2)
  have r2: "selenium_detect_agent_type ''https://claude.ai/gemini.google.com'' = ''claude''"
    using detect_agent_type_classifies [of "''https://claude.ai/gemini.google.com''"]
    by (elim conjE) (erule mp, intro conjI c2)
  have r3: "selenium_detect_agent_type ''https://gemini.google.com/app'' = ''gemini''"
    using detect_agent_type_classifies [of "''https://gemini.google.com/app''"]
    by (elim conjE) (erule mp, intro conjI c3 disjI2)
  have r4: "selenium_detect_agent_type ''https://example.com'' = ''unknown''"
    using detect_agent_type_classifies [of "''https://example.com''"]
    by (elim conjE) (erule mp, intro conjI c4)
  show ?thesis
    by (intro conjI c1 c2 c3 c4 r1 r2 r3 r4)
qed

section \<open>A successful outcome carries a response\<close>

lemma returns_selenium_success:
  "returns (selenium_get_agent_response b agent_url message agent_id)
     (\<lambda>r. map_of r ''success'' = Some (JBool True) \<longrightarrow>
        (\<exists>t. map_of r ''response'' = Some (JStr t) \<and> t \<noteq> []
           \<and> (selenium_detect_agent_type agent_url = ''chatgpt'' \<longrightarrow> 10 < length t)))"
  (is "returns _ ?Q")
proof -
  let ?P = "\<lambda>r. selenium_detect_agent_type agent_url = ''chatgpt''
                \<longrightarrow> (\<forall>t. r = Some t \<longrightarrow> 10 < length t)"
  have strategy:
    "returns (if selenium_detect_agent_type agent_url = ''chatgpt''
              then handle_chatgpt_interaction b agent_url message
              else handle_generic_interaction b agent_url message) ?P"
    using returns_handle_chatgpt [of b agent_url message]
    by (simp add: returns_def)
  have outcome:
    "returns (if truthy response then
          (\<lambda>s. xreturn
            [(''success'', JBool True),
             (''response'', json_opt response),
             (''agent_type'', JStr (selenium_detect_agent_type agent_url)),
             (''agent_id'', json_opt agent_id),
             (''timestamp'', JNum (time_time b (world s)))] s)
        else
          xreturn
            [(''success'', JBool False),
             (''error'', JStr ''No se pudo obtener respuesta del agente''),
             (''response'', JNull)]) ?Q"
    if "?P response" for response
    using that by (cases response) (auto simp: returns_def xreturn_def)
  show ?thesis
    unfolding selenium_get_agent_response_def Let_def
    apply (rule returns_try_except)
     apply (rule returns_xbind)
     apply (rule returns_if_not)
      apply (simp add: returns_xreturn)
     apply (rule returns_xbind_after [OF strategy])
     apply (erule outcome)
    apply (simp add: returns_xreturn)
    done
qed

text \<open>
  C1, as amended. Whenever \<open>SeleniumAgentService.get_agent_response\<close> returns a result
  with \<open>success\<close> true, its \<open>response\<close> is a string that is not empty; when the URL is
  classified \<open>chatgpt\<close>, the specialized path, the string is longer than 10 characters.
  The generic path has no such threshold.
\<close>

theorem success_has_response:
  "selenium_get_agent_response b agent_url message agent_id s = (Inr r, s') \<Longrightarrow>
   map_of r ''success'' = Some (JBool True) \<Longrightarrow>
   \<exists>t. map_of r ''response'' = Some (JStr t) \<and> t \<noteq> []
       \<and> (selenium_detect_agent_type agent_url = ''chatgpt'' \<longrightarrow> 10 < length t)"
  using returnsD [OF returns_selenium_success] by blast

lemma chat_page_run:
  "selenium_get_agent_response static_browser ''https://chatgpt.com/g/x'' ''hola'' (Some ''a1'')
         (fresh chat_page) =
       (Inr [(''success'', JBool True), (''response'', JStr ''The latest answer of the agent''),
            (''agent_type'', JStr ''chatgpt''), (''agent_id'', JStr ''a1''), (''timestamp'', JNum 0)],
        ready chat_page)"
  by (simp add: run_defs chat_page_def)

theorem success_has_response_witness:
  "selenium_get_agent_response static_browser ''https://chatgpt.com/g/x'' ''hola'' (Some ''a1'')
         (fresh chat_page) =
       (Inr [(''success'', JBool True), (''response'', JStr ''The latest answer of the agent''),
            (''agent_type'', JStr ''chatgpt''), (''agent_id'', JStr ''a1''), (''timestamp'', JNum 0)],
        ready chat_page)
   \<and> (\<exists>t. map_of [(''success'', JBool True), (''response'', JStr ''The latest answer of the agent''),
            (''agent_type'', JStr ''chatgpt''), (''agent_id'', JStr ''a1''), (''timestamp'', JNum 0)]
          ''response'' = Some (JStr t) \<and> t \<noteq> []
       \<and> (selenium_detect_agent_type ''https://chatgpt.com/g/x'' = ''chatgpt'' \<longrightarrow> 10 < length t))"
proof -
  have ok: "map_of [(''success'', JBool True), (''response'', JStr ''The latest answer of the agent''),
            (''agent_type'', JStr ''chatgpt''), (''agent_id'', JStr ''a1''), (''timestamp'', JNum 0)]
          ''success'' = Some (JBool True)"
    by simp
  show ?thesis
    by (rule conjI [OF chat_page_run success_has_response [OF chat_page_run ok]])
qed

text \<open>
  The claim as written fails on the generic path: the page of an unknown agent whose
  body reads \<open>ok\<close> gives a result with \<open>success\<close> true and a response of two characters.
\<close>

theorem short_response_counterexample:
  "fst (selenium_get_agent_response static_browser ''https://example.com'' ''hola'' None
         (fresh short_page)) =
       Inr [(''success'', JBool True), (''response'', JStr ''ok''),
            (''agent_type'', JStr ''unknown''), (''agent_id'', JNull), (''timestamp'', JNum 0)]
   \<and> \<not> 10 < length ''ok''"
  by (simp add: run_defs short_page_def)

section \<open>The simulated responder\<close>

lemma response_category_cases:
  "response_category n = ''chatgpt'' \<or> response_category n = ''smartflyer''
   \<or> response_category n = ''smartplanner'' \<or> response_category n = ''technical''
   \<or> response_category n = ''sales''"
  by (simp add: response_category_def)

lemma responses_chatgpt: "\<exists>a b c. map_of (responses m n) ''chatgpt'' = Some [a, b, c]"
  by (simp add: responses_def)

lemma responses_smartflyer: "\<exists>a b c. map_of (responses m n) ''smartflyer'' = Some [a, b, c]"
  by (simp add: responses_def)

lemma responses_smartplanner: "\<exists>a b c. map_of (responses m n) ''smartplanner'' = Some [a, b, c]"
  by (simp add: responses_def)

lemma responses_technical: "\<exists>a b c. map_of (responses m n) ''technical'' = Some [a, b, c]"
  by (simp add: responses_def)

lemma responses_sales: "\<exists>a b c. map_of (responses m n) ''sales'' = Some [a, b, c]"
  by (simp add: responses_def)

lemma responses_category:
  "\<exists>a b c. map_of (responses m n) (response_category n) = Some [a, b, c]"
  using response_category_cases [of n] responses_chatgpt [of m n] responses_smartflyer [of m n]
    responses_smartplanner [of m n] responses_technical [of m n] responses_sales [of m n]
  by (elim disjE) simp_all

text \<open>
  C3, as amended. \<open>_generate_simulated_response\<close> never raises and returns one of the
  three templates of the category chosen by the agent's name, the one at the index the
  shared random generator draws: equal message, name and draw give an equal string, and
  the \<open>agent_type\<close> argument is not consulted. The generator's state is read and advanced,
  so the function is not pure.
\<close>

theorem generate_simulated_response_by_draw:
  "\<exists>templates. map_of (responses message agent_name) (response_category agent_name) = Some templates
     \<and> length templates = 3
     \<and> generate_simulated_response n message agent_type agent_name = Inr (templates ! (n mod 3))"
proof -
  from responses_category [of message agent_name] obtain a b c
    where cat: "map_of (responses message agent_name) (response_category agent_name) = Some [a, b, c]"
    by blast
  from responses_chatgpt [of message agent_name] obtain a' b' c'
    where dflt: "map_of (responses message agent_name) ''chatgpt'' = Some [a', b', c']"
    by blast
  from cat dflt
  have "generate_simulated_response n message agent_type agent_name = Inr ([a, b, c] ! (n mod 3))"
    by (simp add: generate_simulated_response_def random_choice_def)
  with cat show ?thesis by simp
qed

text \<open>
  The claim as written fails: the same message, category and name give two different
  strings when the generator draws 0 and then 1.
\<close>

theorem generate_simulated_response_counterexample:
  "generate_simulated_response 0 ''hola'' ''chatgpt'' ''Bot''
     \<noteq> generate_simulated_response 1 ''hola'' ''chatgpt'' ''Bot''"
  by (simp add: generate_simulated_response_def response_category_def responses_def
      random_choice_def lower_def lower_char_def)

section \<open>The degraded-mode service\<close>

text \<open>
  C10. \<open>SimpleWebScrapingService.get_agent_response\<close> is a function of the URL, the
  message, the id, the clock and the generator alone: no page is fetched. The simulated
  responder never raises, and with its answer the result has \<open>success\<close> true, that answer
  as \<open>response\<close> and \<open>method\<close> \<open>simulated_contextual\<close>, whatever the URL is classified as.
\<close>

theorem simple_get_agent_response_simulated:
  "(\<exists>response. generate_simulated_response (draw env) message
        (simple_detect_agent_type agent_url) (extract_agent_name env agent_url) = Inr response)
   \<and> (generate_simulated_response (draw env) message
        (simple_detect_agent_type agent_url) (extract_agent_name env agent_url) = Inr response
      \<longrightarrow> simple_get_agent_response env agent_url message agent_id =
          Inr [(''success'', JBool True),
               (''response'', JStr response),
               (''agent_type'', JStr (simple_detect_agent_type agent_url)),
               (''agent_id'', json_opt agent_id),
               (''agent_name'', JStr (extract_agent_name env agent_url)),
               (''timestamp'', JNum (clock env 2)),
               (''processing_time'', JNum (clock env 1 - clock env 0)),
               (''method'', JStr ''simulated_contextual'')])"
proof
  from responses_category [of message "extract_agent_name env agent_url"]
    responses_chatgpt [of message "extract_agent_name env agent_url"]
  show "\<exists>response. generate_simulated_response (draw env) message
        (simple_detect_agent_type agent_url) (extract_agent_name env agent_url) = Inr response"
    by (auto simp: generate_simulated_response_def random_choice_def)
next
  show "generate_simulated_response (draw env) message
        (simple_detect_agent_type agent_url) (extract_agent_name env agent_url) = Inr response
      \<longrightarrow> simple_get_agent_response env agent_url message agent_id =
          Inr [(''success'', JBool True),
               (''response'', JStr response),
               (''agent_type'', JStr (simple_detect_agent_type agent_url)),
               (''agent_id'', json_opt agent_id),
               (''agent_name'', JStr (extract_agent_name env agent_url)),
               (''timestamp'', JNum (clock env 2)),
               (''processing_time'', JNum (clock env 1 - clock env 0)),
               (''method'', JStr ''simulated_contextual'')]"
    by (simp add: simple_get_agent_response_def simple_get_agent_response_body_def)
qed

lemma example_reply:
  "generate_simulated_response (draw (example_env 1)) ''hola''
      (simple_detect_agent_type ''https://example.com'')
      (extract_agent_name (example_env 1) ''https://example.com'')
    = Inr (''Gracias por contactar a Example. Tu mensaje sobre 'hola' es muy interesante. Bas'' @ [CHR 0xE1] @
            ''ndome en mi conocimiento, puedo sugerirte algunas opciones y enfoques para abordar tu consulta. '' @
            [CHR 0xBF] @ ''Te gustar'' @ [CHR 0xED] @ ''a que profundice en alg'' @ [CHR 0xFA] @
            ''n punto particular?'')"
  by code_simp

lemma example_parts:
  "simple_detect_agent_type ''https://example.com'' = ''unknown''"
  "extract_agent_name (example_env 1) ''https://example.com'' = ''Example''"
  "clock (example_env 1) 2 = 2"
  "clock (example_env 1) 1 - clock (example_env 1) 0 = 1"
  by (code_simp, code_simp, simp_all add: example_env_def)

theorem simple_get_agent_response_simulated_witness:
  "generate_simulated_response (draw (example_env 1)) ''hola''
      (simple_detect_agent_type ''https://example.com'')
      (extract_agent_name (example_env 1) ''https://example.com'')
    = Inr (''Gracias por contactar a Example. Tu mensaje sobre 'hola' es muy interesante. Bas'' @ [CHR 0xE1] @
            ''ndome en mi conocimiento, puedo sugerirte algunas opciones y enfoques para abordar tu consulta. '' @
            [CHR 0xBF] @ ''Te gustar'' @ [CHR 0xED] @ ''a que profundice en alg'' @ [CHR 0xFA] @
            ''n punto particular?'')
   \<and> simple_get_agent_response (example_env 1) ''https://example.com'' ''hola'' None =
          Inr [(''success'', JBool True),
               (''response'', JStr (''Gracias por contactar a Example. Tu mensaje sobre 'hola' es muy interesante. Bas'' @ [CHR 0xE1] @
            ''ndome en mi conocimiento, puedo sugerirte algunas opciones y enfoques para abordar tu consulta. '' @
            [CHR 0xBF] @ ''Te gustar'' @ [CHR 0xED] @ ''a que profundice en alg'' @ [CHR 0xFA] @
            ''n punto particular?'')),
               (''agent_type'', JStr ''unknown''),
               (''agent_id'', JNull),
               (''agent_name'', JStr ''Example''),
               (''timestamp'', JNum 2),
               (''processing_time'', JNum 1),
               (''method'', JStr ''simulated_contextual'')]"
  using example_reply
    simple_get_agent_response_simulated [of "example_env 1" "''hola''" "''https://example.com''"
      _ None, THEN conjunct2, THEN mp, OF example_reply]
  by (simp only: example_parts json_opt.simps simp_thms)

section \<open>The fields of a result\<close>

lemma returns_selenium_fields:
  "returns (selenium_get_agent_response b agent_url message agent_id)
     (\<lambda>r. (map_of r ''success'' = Some (JBool True)
            \<and> map fst r = [''success'', ''response'', ''agent_type'', ''agent_id'', ''timestamp''])
          \<or> (map_of r ''success'' = Some (JBool False)
            \<and> map fst r = [''success'', ''error'', ''response'']))"
  unfolding selenium_get_agent_response_def Let_def
  apply (rule returns_try_except)
   apply (rule returns_xbind)
   apply (rule returns_if_not)
    apply (simp add: returns_xreturn)
   apply (rule returns_xbind)
   apply (simp add: returns_def xreturn_def)
  apply (simp add: returns_xreturn)
  done

text \<open>
  C9, as amended. A successful result of \<open>SeleniumAgentService.get_agent_response\<close> has
  the fields \<open>success\<close>, \<open>response\<close>, \<open>agent_type\<close>, \<open>agent_id\<close>, \<open>timestamp\<close>, and on the
  degraded-mode path also \<open>agent_name\<close>, \<open>processing_time\<close>, \<open>method\<close>; a failed result of
  either service has the fields \<open>success\<close>, \<open>error\<close>, \<open>response\<close> and no others.
\<close>

theorem result_fields:
  "(selenium_get_agent_response b agent_url message agent_id s = (Inr r, s') \<longrightarrow>
      (map_of r ''success'' = Some (JBool True)
         \<and> map fst r = [''success'', ''response'', ''agent_type'', ''agent_id'', ''timestamp''])
      \<or> (map_of r ''success'' = Some (JBool False)
         \<and> map fst r = [''success'', ''error'', ''response'']))
   \<and> (simple_get_agent_response env agent_url message agent_id = Inr r' \<longrightarrow>
      (map_of r' ''success'' = Some (JBool True)
         \<and> map fst r' = [''success'', ''response'', ''agent_type'', ''agent_id'', ''agent_name'',
                          ''timestamp'', ''processing_time'', ''method''])
      \<or> (map_of r' ''success'' = Some (JBool False)
         \<and> map fst r' = [''success'', ''error'', ''response'']))"
proof (intro conjI impI)
  assume "selenium_get_agent_response b agent_url message agent_id s = (Inr r, s')"
  from returnsD [OF returns_selenium_fields this]
  show "(map_of r ''success'' = Some (JBool True)
         \<and> map fst r = [''success'', ''response'', ''agent_type'', ''agent_id'', ''timestamp''])
      \<or> (map_of r ''success'' = Some (JBool False)
         \<and> map fst r = [''success'', ''error'', ''response''])" .
next
  assume "simple_get_agent_response env agent_url message agent_id = Inr r'"
  then show "(map_of r' ''success'' = Some (JBool True)
         \<and> map fst r' = [''success'', ''response'', ''agent_type'', ''agent_id'', ''agent_name'',
                          ''timestamp'', ''processing_time'', ''method''])
      \<or> (map_of r' ''success'' = Some (JBool False)
         \<and> map fst r' = [''success'', ''error'', ''response''])"
    by (auto simp: simple_get_agent_response_def simple_get_agent_response_body_def Let_def
        split: sum.splits)
qed

lemma bare_page_run:
  "selenium_get_agent_response static_browser ''https://example.com'' ''hola'' None
     (fresh bare_page) =
   (Inr [(''success'', JBool False),
         (''error'', JStr ''No se pudo obtener respuesta del agente''),
         (''response'', JNull)], ready bare_page)"
  by (simp add: run_defs bare_page_def)

lemma example_run_fields:
  "\<exists>r'. simple_get_agent_response (example_env 1) ''https://example.com'' ''hola'' None = Inr r'"
  by (simp add: simple_get_agent_response_def simple_get_agent_response_body_def Let_def
        split: sum.splits)

theorem result_fields_witness:
  "selenium_get_agent_response static_browser ''https://example.com'' ''hola'' None
     (fresh bare_page) =
   (Inr [(''success'', JBool False),
         (''error'', JStr ''No se pudo obtener respuesta del agente''),
         (''response'', JNull)], ready bare_page)
   \<and> ((map_of [(''success'', JBool False),
         (''error'', JStr ''No se pudo obtener respuesta del agente''),
         (''response'', JNull)] ''success'' = Some (JBool True)
         \<and> map fst [(''success'', JBool False),
         (''error'', JStr ''No se pudo obtener respuesta del agente''),
         (''response'', JNull)] = [''success'', ''response'', ''agent_type'', ''agent_id'', ''timestamp''])
      \<or> (map_of [(''success'', JBool False),
         (''error'', JStr ''No se pudo obtener respuesta del agente''),
         (''response'', JNull)] ''success'' = Some (JBool False)
         \<and> map fst [(''success'', JBool False),
         (''error'', JStr ''No se pudo obtener respuesta del agente''),
         (''response'', JNull)] = [''success'', ''error'', ''response'']))
   \<and> simple_get_agent_response (example_env 1) ''https://example.com'' ''hola'' None
       = Inr (projr (simple_get_agent_response (example_env 1) ''https://example.com'' ''hola'' None))
   \<and> ((map_of (projr (simple_get_agent_response (example_env 1) ''https://example.com'' ''hola'' None))
           ''success'' = Some (JBool True)
         \<and> map fst (projr (simple_get_agent_response (example_env 1) ''https://example.com'' ''hola'' None))
            = [''success'', ''response'', ''agent_type'', ''agent_id'', ''agent_name'',
                          ''timestamp'', ''processing_time'', ''method''])
      \<or> (map_of (projr (simple_get_agent_response (example_env 1) ''https://example.com'' ''hola'' None))
           ''success'' = Some (JBool False)
         \<and> map fst (projr (simple_get_agent_response (example_env 1) ''https://example.com'' ''hola'' None))
            = [''success'', ''error'', ''response'']))"
proof -
  from example_run_fields
  have run: "simple_get_agent_response (example_env 1) ''https://example.com'' ''hola'' None
       = Inr (projr (simple_get_agent_response (example_env 1) ''https://example.com'' ''hola'' None))"
    by auto
  note first = result_fields [THEN conjunct1, THEN mp, OF bare_page_run]
  note second = result_fields [THEN conjunct2, THEN mp, OF run]
  show ?thesis
    by (intro conjI bare_page_run first run second)
qed

text \<open>
  The claim as written fails: a failed result has no \<open>agent_type\<close>, \<open>agent_id\<close> or
  \<open>timestamp\<close>, and a successful one has no \<open>error\<close>.
\<close>

theorem result_fields_counterexample:
  "map fst (case fst (selenium_get_agent_response static_browser ''https://example.com'' ''hola''
       None (fresh bare_page)) of Inl e \<Rightarrow> [] | Inr r \<Rightarrow> r)
     = [''success'', ''error'', ''response'']
   \<and> map fst (case fst (selenium_get_agent_response static_browser ''https://chatgpt.com/g/x''
       ''hola'' (Some ''a1'') (fresh chat_page)) of Inl e \<Rightarrow> [] | Inr r \<Rightarrow> r)
     = [''success'', ''response'', ''agent_type'', ''agent_id'', ''timestamp'']"
  by (simp add: run_defs bare_page_def chat_page_def)

section \<open>The send button is asked before it is clicked\<close>

lemma asked_no_click: "list_all is_asked qs \<Longrightarrow> Clicked e \<notin> set qs"
  by (induction qs) auto

text \<open>
  C6. Take any browser and watch the specialized interaction through \<open>logged\<close>, which
  does not change the run. What the interaction adds to the record is a run of answers
  of \<open>is_enabled()\<close> and then either nothing, in which case it returns \<open>None\<close>, or the
  answer \<open>True\<close> of one element followed at once by the one click, on that element. So
  a control is clicked only right after it has reported itself enabled, and when no
  control reported itself enabled the interaction fails without a click.
\<close>

theorem chatgpt_click_after_enabled:
  "handle_chatgpt_interaction (logged b) agent_url message s = (r, s') \<Longrightarrow>
   handle_chatgpt_interaction b agent_url message (erase s) = (r, erase s')
   \<and> (\<exists>qs. list_all is_asked qs \<and>
        ((trace s' = trace s @ qs \<and> r = Inr None)
         \<or> (\<exists>e. trace s' = trace s @ qs @ [Asked_enabled e True, Clicked e])))
   \<and> ((\<forall>e. Asked_enabled e True \<notin> set (drop (length (trace s)) (trace s')))
        \<longrightarrow> r = Inr None \<and> (\<forall>e. Clicked e \<notin> set (drop (length (trace s)) (trace s'))))"
proof -
  assume run: "handle_chatgpt_interaction (logged b) agent_url message s = (r, s')"
  from unfailingD [OF unfailing_handle_chatgpt]
  obtain x s0 where "handle_chatgpt_interaction (logged b) agent_url message s = (Inr x, s0)"
    by blast
  with run have r: "r = Inr x" by simp
  from guardedD [OF guarded_handle_chatgpt run] r
  obtain qs where qs: "list_all is_asked qs"
    and alt: "(trace s' = trace s @ qs \<and> r = Inr None)
         \<or> (\<exists>e. trace s' = trace s @ qs @ [Asked_enabled e True, Clicked e])"
    unfolding click_shape_def by (cases x) auto
  have shape: "\<exists>qs. list_all is_asked qs \<and>
        ((trace s' = trace s @ qs \<and> r = Inr None)
         \<or> (\<exists>e. trace s' = trace s @ qs @ [Asked_enabled e True, Clicked e]))"
    using qs alt by blast
  have quiet: "r = Inr None \<and> (\<forall>e. Clicked e \<notin> set (drop (length (trace s)) (trace s')))"
    if none: "\<forall>e. Asked_enabled e True \<notin> set (drop (length (trace s)) (trace s'))"
    using alt
  proof
    assume "trace s' = trace s @ qs \<and> r = Inr None"
    with asked_no_click [OF qs] show ?thesis by simp
  next
    assume "\<exists>e. trace s' = trace s @ qs @ [Asked_enabled e True, Clicked e]"
    then obtain e where "trace s' = trace s @ qs @ [Asked_enabled e True, Clicked e]" ..
    then have "Asked_enabled e True \<in> set (drop (length (trace s)) (trace s'))" by simp
    with none show ?thesis by blast
  qed
  from mirrorsD [OF mirrors_handle_chatgpt run] shape quiet show ?thesis by blast
qed

lemma chat_page_logged_run:
  "handle_chatgpt_interaction (logged static_browser) ''https://chatgpt.com/g/x'' ''hola''
     (ready (chat_page, [])) =
   (Inr (Some ''The latest answer of the agent''),
    ready (chat_page, [Asked_enabled 2 True, Asked_enabled 2 True, Clicked 2]))"
  by (simp add: run_defs chat_page_def logged_def keep_def)

lemma locked_page_logged_run:
  "handle_chatgpt_interaction (logged static_browser) ''https://chatgpt.com/g/x'' ''hola''
     (ready (locked_page, [])) =
   (Inr None, ready (locked_page, [Asked_enabled 2 False, Asked_enabled 2 False]))"
  by (simp add: run_defs locked_page_def logged_def keep_def)

theorem chatgpt_click_after_enabled_witness:
  "handle_chatgpt_interaction (logged static_browser) ''https://chatgpt.com/g/x'' ''hola''
     (ready (locked_page, [])) =
   (Inr None, ready (locked_page, [Asked_enabled 2 False, Asked_enabled 2 False]))
   \<and> (\<forall>e. Asked_enabled e True \<notin> set [Asked_enabled 2 False, Asked_enabled 2 False])
   \<and> (\<forall>e. Clicked e \<notin> set [Asked_enabled 2 False, Asked_enabled 2 False])
   \<and> handle_chatgpt_interaction static_browser ''https://chatgpt.com/g/x'' ''hola''
        (ready locked_page) = (Inr None, ready locked_page)
   \<and> handle_chatgpt_interaction (logged static_browser) ''https://chatgpt.com/g/x'' ''hola''
     (ready (chat_page, [])) =
   (Inr (Some ''The latest answer of the agent''),
    ready (chat_page, [Asked_enabled 2 True, Asked_enabled 2 True, Clicked 2]))
   \<and> handle_chatgpt_interaction static_browser ''https://chatgpt.com/g/x'' ''hola''
        (ready chat_page) = (Inr (Some ''The latest answer of the agent''), ready chat_page)"
proof -
  have none: "\<forall>e. Asked_enabled e True \<notin> set [Asked_enabled 2 False, Asked_enabled 2 False]"
    by simp
  from chatgpt_click_after_enabled [OF locked_page_logged_run] none
  have "\<forall>e. Clicked e \<notin> set [Asked_enabled 2 False, Asked_enabled 2 False]"
    and "handle_chatgpt_interaction static_browser ''https://chatgpt.com/g/x'' ''hola''
        (ready locked_page) = (Inr None, ready locked_page)"
    by (simp_all add: trace_def ready_def erase_def)
  moreover from chatgpt_click_after_enabled [OF chat_page_logged_run]
  have "handle_chatgpt_interaction static_browser ''https://chatgpt.com/g/x'' ''hola''
        (ready chat_page) = (Inr (Some ''The latest answer of the agent''), ready chat_page)"
    by (simp add: ready_def erase_def)
  ultimately show ?thesis
    using none locked_page_logged_run chat_page_logged_run by (intro conjI)
qed

section \<open>Resolving the response\<close>

lemma response_of_static:
  "driver s \<Longrightarrow>
   response_of static_browser sel s =
     (Inr (if located (world s) (CSS_SELECTOR, sel) \<noteq> []
              \<and> 10 < length (strip (text_on (world s) (last (located (world s) (CSS_SELECTOR, sel)))))
           then Some (strip (text_on (world s) (last (located (world s) (CSS_SELECTOR, sel)))))
           else None), s)"
  by (auto simp: response_of_def static_browser_def drv_def io_def try_except_def xbind_def
      xreturn_def Let_def)

lemma find_response_static:
  "driver s \<Longrightarrow>
   find_response static_browser sels s = (Inr (first_answer (world s) sels), s)"
proof (induction sels)
  case Nil
  show ?case by (simp add: first_answer_def xreturn_def)
next
  case (Cons a sels)
  then show ?case
    by (simp add: response_of_static first_answer_def xbind_def xreturn_def)
qed

lemma chatgpt_None_fails:
  "driver s \<Longrightarrow> selenium_detect_agent_type agent_url = ''chatgpt'' \<Longrightarrow>
   handle_chatgpt_interaction b agent_url message s = (Inr None, s') \<Longrightarrow>
   selenium_get_agent_response b agent_url message agent_id s =
     (Inr [(''success'', JBool False),
           (''error'', JStr ''No se pudo obtener respuesta del agente''),
           (''response'', JNull)], s')"
  by (simp add: selenium_get_agent_response_def try_except_def xbind_def xreturn_def)

text \<open>
  C4, as amended. The response loop succeeds on the first selector, in catalog order,
  for which the lookup returns elements and the last of them, in document order, has a
  stripped text longer than 10 characters; that stripped text is returned. A selector
  that matches nothing, whose last element has a shorter text, or whose lookup raises, is
  passed over, whatever the other elements it matches hold. The loop never raises; when
  no selector succeeds it returns \<open>None\<close>, and a specialized interaction that returns
  \<open>None\<close> gives a failed outcome. On a page that stands still this is \<open>first_answer\<close>.
\<close>

theorem response_resolution:
  "(find_response b sels s = (Inr (Some t), s') \<longleftrightarrow>
      (\<exists>pre sel post s1. sels = pre @ sel # post
         \<and> find_response b pre s = (Inr None, s1)
         \<and> response_of b sel s1 = (Inr (Some t), s')))
   \<and> (response_of b sel s = (Inr (Some t), s') \<longleftrightarrow>
      (\<exists>els raw s1. drv (find_elements b (CSS_SELECTOR, sel)) s = (Inr els, s1) \<and> els \<noteq> []
         \<and> io (el_text b (last els)) s1 = (Inr raw, s') \<and> t = strip raw \<and> 10 < length t))
   \<and> (\<exists>r s'. find_response b sels s = (Inr r, s'))
   \<and> (driver s \<and> selenium_detect_agent_type agent_url = ''chatgpt''
        \<and> handle_chatgpt_interaction b agent_url message s = (Inr None, s')
      \<longrightarrow> selenium_get_agent_response b agent_url message agent_id s =
           (Inr [(''success'', JBool False),
                 (''error'', JStr ''No se pudo obtener respuesta del agente''),
                 (''response'', JNull)], s'))
   \<and> (driver p \<longrightarrow>
        find_response static_browser sels p = (Inr (first_answer (world p) sels), p))"
  using find_response_Some_iff [of b sels s t s'] response_of_Some_iff [of b sel s t s']
    unfailingD [OF unfailing_find_response, of b sels s]
    chatgpt_None_fails [of s agent_url b message s' agent_id]
    find_response_static [of p sels]
  by (intro conjI impI) blast+

lemma fallback_page_miss:
  "find_response static_browser [''.markdown.prose''] (ready fallback_page)
     = (Inr None, ready fallback_page)"
  by (simp add: run_defs fallback_page_def)

lemma fallback_page_hit:
  "response_of static_browser ''.message-content'' (ready fallback_page)
     = (Inr (Some ''Another container with text''), ready fallback_page)"
  by (simp add: run_defs fallback_page_def)

lemma hello_page_None:
  "handle_chatgpt_interaction static_browser ''https://chatgpt.com/g/x'' ''hola''
     (ready hello_page) = (Inr None, ready hello_page)"
  by (simp add: run_defs hello_page_def)

theorem response_resolution_witness:
  "find_response static_browser [''.markdown.prose''] (ready fallback_page)
     = (Inr None, ready fallback_page)
   \<and> response_of static_browser ''.message-content'' (ready fallback_page)
     = (Inr (Some ''Another container with text''), ready fallback_page)
   \<and> find_response static_browser chatgpt_response_selectors (ready fallback_page)
     = (Inr (Some ''Another container with text''), ready fallback_page)
   \<and> driver (ready hello_page)
   \<and> selenium_detect_agent_type ''https://chatgpt.com/g/x'' = ''chatgpt''
   \<and> handle_chatgpt_interaction static_browser ''https://chatgpt.com/g/x'' ''hola''
     (ready hello_page) = (Inr None, ready hello_page)
   \<and> selenium_get_agent_response static_browser ''https://chatgpt.com/g/x'' ''hola'' None
       (ready hello_page) =
           (Inr [(''success'', JBool False),
                 (''error'', JStr ''No se pudo obtener respuesta del agente''),
                 (''response'', JNull)], ready hello_page)"
proof -
  have split: "chatgpt_response_selectors =
      [''.markdown.prose''] @ ''.message-content''
        # [''[data-message-author-role='assistant'] .markdown'', ''.conversation-turn .markdown'']"
    by (simp add: chatgpt_response_selectors_def)
  have found: "find_response static_browser chatgpt_response_selectors (ready fallback_page)
     = (Inr (Some ''Another container with text''), ready fallback_page)"
    using response_resolution [where b = static_browser and sels = chatgpt_response_selectors
        and s = "ready fallback_page" and s' = "ready fallback_page"
        and t = "''Another container with text''", THEN conjunct1, THEN iffD2]
      split fallback_page_miss fallback_page_hit
    by blast
  have ready: "driver (ready hello_page)"
    by (simp add: ready_def)
  have kind: "selenium_detect_agent_type ''https://chatgpt.com/g/x'' = ''chatgpt''"
    by (simp add: selenium_detect_agent_type_def)
  have pre: "driver (ready hello_page)
      \<and> selenium_detect_agent_type ''https://chatgpt.com/g/x'' = ''chatgpt''
      \<and> handle_chatgpt_interaction static_browser ''https://chatgpt.com/g/x'' ''hola''
          (ready hello_page) = (Inr None, ready hello_page)"
    by (intro conjI ready kind hello_page_None)
  have failed: "selenium_get_agent_response static_browser ''https://chatgpt.com/g/x'' ''hola'' None
       (ready hello_page) =
           (Inr [(''success'', JBool False),
                 (''error'', JStr ''No se pudo obtener respuesta del agente''),
                 (''response'', JNull)], ready hello_page)"
    by (rule response_resolution [where b = static_browser and s = "ready hello_page"
        and s' = "ready hello_page" and agent_url = "''https://chatgpt.com/g/x''"
        and message = "''hola''" and agent_id = None,
        THEN conjunct2, THEN conjunct2, THEN conjunct2, THEN conjunct1, THEN mp, OF pre])
  show ?thesis
    by (intro conjI fallback_page_miss fallback_page_hit found ready kind hello_page_None failed)
qed

text \<open>
  The claim as written fails: on the page where \<open>.markdown.prose\<close> matches an element
  with a long text and then one that reads \<open>Hello!\<close>, a matching element has a stripped
  text longer than 10 characters, yet the resolution does not succeed.
\<close>

theorem response_resolution_counterexample:
  "located hello_page (CSS_SELECTOR, ''.markdown.prose'') = [3, 4]
   \<and> 10 < length (strip (text_on hello_page 3))
   \<and> fst (find_response static_browser chatgpt_response_selectors (ready hello_page)) = Inr None"
  by (simp add: run_defs hello_page_def)

section \<open>The first match wins\<close>












section \<open>No exception leaves the service\<close>











section \<open>The generic interaction\<close>























end
